theory Spec2Isabelle
  imports Complex_Main "HOL-Library.Multiset" "HOL-Library.Sublist"
begin

section \<open>Model of the personalized video feed service\<close>

text \<open>
  A shallow embedding of the request path of the feed service.  Python floats (scores,
  weights, wall-clock readings) are idealised as \<^typ>\<open>real\<close>; Python's unbounded
  integers are \<^typ>\<open>int\<close>.  A reading of \<^verbatim>\<open>time.time()\<close> is an explicit argument of
  the function that performs it; one reading serves a whole call of \<^verbatim>\<open>rank\<close> and a whole
  request, and characters are bytes (the strings of the fixtures are ASCII).
\<close>

subsection \<open>Python values and built-ins used by the service\<close>

text \<open>Exceptions that can reach a caller, as values.\<close>

datatype error = CircuitBreakerOpenError | TypeError | OtherError string

text \<open>
  The Python value \<^verbatim>\<open>json.loads\<close> produces.  An object is its key/value pairs; keys of one
  object are distinct, lookup is \<^const>\<open>map_of\<close>.
\<close>

datatype json =
    JNull
  | JBool bool
  | JInt int
  | JFloat real
  | JStr string
  | JArr "json list"
  | JObj "(string \<times> json) list"

text \<open>
  A value used as a slice bound and as the left operand of \<^verbatim>\<open>+ limit\<close>: an \<^verbatim>\<open>int\<close> (or
  \<^verbatim>\<open>bool\<close>, a subclass of \<^verbatim>\<open>int\<close>) works; \<^verbatim>\<open>None\<close>, \<^verbatim>\<open>str\<close>, \<^verbatim>\<open>list\<close> and \<^verbatim>\<open>dict\<close> raise
  \<^verbatim>\<open>TypeError\<close> at the addition, a \<^verbatim>\<open>float\<close> raises it at the subscription.
\<close>

fun as_index :: "json \<Rightarrow> int option" where
  "as_index (JInt i) = Some i"
| "as_index (JBool b) = Some (if b then 1 else 0)"
| "as_index _ = None"

text \<open>\<^verbatim>\<open>xs[a:b]\<close> for integers: a negative bound counts from the end, both are clamped.\<close>

definition py_bound :: "nat \<Rightarrow> int \<Rightarrow> nat" where
  "py_bound n i = (if i < 0 then nat (max 0 (i + int n)) else min (nat i) n)"

definition py_slice :: "'a list \<Rightarrow> int \<Rightarrow> int \<Rightarrow> 'a list" where
  "py_slice xs a b =
     (let lo = py_bound (length xs) a; hi = py_bound (length xs) b
      in take (hi - lo) (drop lo xs))"

text \<open>\<^verbatim>\<open>xs.insert(i, x)\<close>: the index is normalised like a slice bound.\<close>

definition py_insert :: "'a list \<Rightarrow> int \<Rightarrow> 'a \<Rightarrow> 'a list" where
  "py_insert xs i x =
     (let j = py_bound (length xs) i in take j xs @ x # drop j xs)"

text \<open>\<^verbatim>\<open>d[k] = v\<close> on an insertion-ordered dict: replace in place, or append.\<close>

fun dict_set :: "'k \<Rightarrow> 'v \<Rightarrow> ('k \<times> 'v) list \<Rightarrow> ('k \<times> 'v) list" where
  "dict_set k v [] = [(k, v)]"
| "dict_set k v (p # ps) = (if fst p = k then (k, v) # ps else p # dict_set k v ps)"

text \<open>\<^verbatim>\<open>d.get(k, default)\<close>.\<close>

definition dict_get :: "('k \<times> 'v) list \<Rightarrow> 'k \<Rightarrow> 'v \<Rightarrow> 'v" where
  "dict_get d k dflt = (case map_of d k of None \<Rightarrow> dflt | Some v \<Rightarrow> v)"

text \<open>
  \<^verbatim>\<open>xs.sort(key=f, reverse=True)\<close>: CPython reverses the list, sorts it stably in ascending
  key order and reverses the result, so equal keys keep their original relative order.
\<close>

definition py_sort_desc :: "('a \<Rightarrow> 'k::linorder) \<Rightarrow> 'a list \<Rightarrow> 'a list" where
  "py_sort_desc f xs = rev (sort_key f (rev xs))"

text \<open>\<^verbatim>\<open>xs.index(x)\<close>, with \<^verbatim>\<open>ValueError\<close> as \<^const>\<open>None\<close>.\<close>

fun index_of :: "'a list \<Rightarrow> 'a \<Rightarrow> nat option" where
  "index_of [] x = None"
| "index_of (y # ys) x = (if y = x then Some 0 else map_option Suc (index_of ys x))"

text \<open>\<^verbatim>\<open>str(n)\<close> for an integer.\<close>

definition digit_char :: "nat \<Rightarrow> char" where
  "digit_char d = ''0123456789'' ! d"

fun str_nat :: "nat \<Rightarrow> string" where
  "str_nat n = (if n < 10 then [digit_char n] else str_nat (n div 10) @ [digit_char (n mod 10)])"

declare str_nat.simps [simp del]

definition str_int :: "int \<Rightarrow> string" where
  "str_int i = (if i < 0 then CHR ''-'' # str_nat (nat (- i)) else str_nat (nat i))"

text \<open>\<^verbatim>\<open>int(x)\<close> for a float truncates towards zero.\<close>

definition py_int :: "real \<Rightarrow> int" where
  "py_int x = (if x \<ge> 0 then \<lfloor>x\<rfloor> else \<lceil>x\<rceil>)"

text \<open>\<^verbatim>\<open>round(x, 2)\<close> on the idealised real: nearest hundredth, ties to even.\<close>

definition py_round2 :: "real \<Rightarrow> real" where
  "py_round2 x =
     (let y = x * 100; f = \<lfloor>y\<rfloor>; d = y - of_int f;
          r = (if d < 1 / 2 then f else if d > 1 / 2 then f + 1 else if even f then f else f + 1)
      in of_int r / 100)"

text \<open>\<^verbatim>\<open>base64.b64encode\<close> over the bytes of an ASCII string.\<close>

definition b64_char :: "nat \<Rightarrow> char" where
  "b64_char k = ''ABCDEFGHIJKLMNOPQRSTUVWXYZabcdefghijklmnopqrstuvwxyz0123456789+/'' ! k"

fun b64_groups :: "nat list \<Rightarrow> string" where
  "b64_groups [] = []"
| "b64_groups [a] = [b64_char (a div 4), b64_char ((a mod 4) * 16), CHR ''='', CHR ''='']"
| "b64_groups [a, b] =
     [b64_char (a div 4), b64_char ((a mod 4) * 16 + b div 16), b64_char ((b mod 16) * 4),
      CHR ''='']"
| "b64_groups (a # b # c # rest) =
     [b64_char (a div 4), b64_char ((a mod 4) * 16 + b div 16),
      b64_char ((b mod 16) * 4 + c div 64), b64_char (c mod 64)] @ b64_groups rest"

definition b64encode :: "string \<Rightarrow> string" where
  "b64encode s = b64_groups (map of_char s)"

subsection \<open>app/core/cache.py\<close>

record 'v CacheEntry =
  entry_value :: 'v
  expires_at :: "real option"

text \<open>\<^verbatim>\<open>CacheEntry.is_expired\<close>: no expiry means never expired; otherwise \<^verbatim>\<open>time.time() > expires_at\<close>.\<close>

definition is_expired :: "'v CacheEntry \<Rightarrow> real \<Rightarrow> bool" where
  "is_expired e now = (case expires_at e of None \<Rightarrow> False | Some t \<Rightarrow> now > t)"

record 'v InMemoryCache =
  store :: "string \<rightharpoonup> 'v CacheEntry"
  default_ttl :: "real option"

text \<open>\<^verbatim>\<open>InMemoryCache.get\<close>: the returned option and the cache after the call.\<close>

definition cache_get :: "'v InMemoryCache \<Rightarrow> real \<Rightarrow> string \<Rightarrow> 'v option \<times> 'v InMemoryCache" where
  "cache_get c now key =
     (case store c key of
        None \<Rightarrow> (None, c)
      | Some entry \<Rightarrow>
          if is_expired entry now
          then (None, c\<lparr>store := (store c)(key := None)\<rparr>)
          else (Some (entry_value entry), c))"

text \<open>
  \<^verbatim>\<open>InMemoryCache.set\<close>:
  \<^verbatim>\<open>ttl = ttl_seconds if ttl_seconds is not None else self._default_ttl\<close>, then
  \<^verbatim>\<open>expires_at = time.time() + ttl if ttl else None\<close>.  The second test is Python
  truthiness: both \<^verbatim>\<open>None\<close> and \<^verbatim>\<open>0\<close> take the \<^verbatim>\<open>else\<close> branch.
\<close>

definition cache_set ::
  "'v InMemoryCache \<Rightarrow> real \<Rightarrow> string \<Rightarrow> 'v \<Rightarrow> real option \<Rightarrow> 'v InMemoryCache" where
  "cache_set c now key v ttl_seconds =
     (let ttl = (case ttl_seconds of Some t \<Rightarrow> Some t | None \<Rightarrow> default_ttl c);
          expires = (case ttl of
                       None \<Rightarrow> None
                     | Some t \<Rightarrow> if t \<noteq> 0 then Some (now + t) else None)
      in c\<lparr>store := (store c)(key \<mapsto> \<lparr>entry_value = v, expires_at = expires\<rparr>)\<rparr>)"

subsection \<open>app/core/circuit_breaker.py\<close>

datatype CircuitState = CLOSED | OPEN | HALF_OPEN

record CircuitBreaker =
  failure_threshold :: int
  recovery_timeout_sec :: real
  state :: CircuitState
  failure_count :: int
  last_failure_time :: "real option"

text \<open>
  A callable passed to the breaker (\<^verbatim>\<open>Callable[[], T]\<close>): it reads and changes the world
  outside the breaker, and returns a value or raises.
\<close>

type_synonym ('a, 'w) thunk = "'w \<Rightarrow> (error + 'a) \<times> 'w"

text \<open>\<^verbatim>\<open>_should_attempt_reset\<close>; \<open>now\<close> is the clock at the arrival of the call.\<close>

definition should_attempt_reset :: "CircuitBreaker \<Rightarrow> real \<Rightarrow> bool" where
  "should_attempt_reset cb now =
     (case last_failure_time cb of
        None \<Rightarrow> True
      | Some t \<Rightarrow> now - t \<ge> recovery_timeout_sec cb)"

text \<open>\<^verbatim>\<open>_on_success\<close>.\<close>

definition on_success :: "CircuitBreaker \<Rightarrow> CircuitBreaker" where
  "on_success cb =
     (let cb' = cb\<lparr>failure_count := 0\<rparr>
      in if state cb' = HALF_OPEN then cb'\<lparr>state := CLOSED\<rparr> else cb')"

text \<open>\<^verbatim>\<open>_on_failure\<close>; \<open>now\<close> is the clock read after the primary has raised.\<close>

definition on_failure :: "CircuitBreaker \<Rightarrow> real \<Rightarrow> CircuitBreaker" where
  "on_failure cb now =
     (let cb' = cb\<lparr>failure_count := failure_count cb + 1, last_failure_time := Some now\<rparr>
      in if failure_count cb' \<ge> failure_threshold cb' then cb'\<lparr>state := OPEN\<rparr> else cb')"

text \<open>
  \<^verbatim>\<open>CircuitBreaker.call\<close>: the result (a raised exception is \<^const>\<open>Inl\<close>), the breaker and
  the world after the call.  A fallback that is not \<^verbatim>\<open>None\<close> is a function, hence truthy.
\<close>

definition call ::
  "CircuitBreaker \<Rightarrow> real \<Rightarrow> real \<Rightarrow> ('a, 'w) thunk \<Rightarrow> ('a, 'w) thunk option \<Rightarrow> 'w
     \<Rightarrow> (error + 'a) \<times> CircuitBreaker \<times> 'w" where
  "call cb t_arrive t_fail func fallback w =
     (if state cb = OPEN \<and> \<not> should_attempt_reset cb t_arrive
      then (case fallback of
              Some fb \<Rightarrow> (case fb w of (r, w') \<Rightarrow> (r, cb, w'))
            | None \<Rightarrow> (Inl CircuitBreakerOpenError, cb, w))
      else
        let cb1 = (if state cb = OPEN then cb\<lparr>state := HALF_OPEN\<rparr> else cb)
        in case func w of
             (Inr v, w1) \<Rightarrow> (Inr v, on_success cb1, w1)
           | (Inl e, w1) \<Rightarrow>
               let cb2 = on_failure cb1 t_fail
               in (case fallback of
                     Some fb \<Rightarrow> (case fb w1 of (r, w2) \<Rightarrow> (r, cb2, w2))
                   | None \<Rightarrow> (Inl e, cb2, w1)))"

text \<open>A sequence of calls on one breaker, each with its two clock readings.\<close>

record ('a, 'w) breaker_call =
  t_arrive :: real
  t_fail :: real
  primary :: "('a, 'w) thunk"
  fallback_fn :: "('a, 'w) thunk option"

fun run_calls :: "CircuitBreaker \<Rightarrow> ('a, 'w) breaker_call list \<Rightarrow> 'w \<Rightarrow> CircuitBreaker \<times> 'w" where
  "run_calls cb [] w = (cb, w)"
| "run_calls cb (c # cs) w =
     (case call cb (t_arrive c) (t_fail c) (primary c) (fallback_fn c) w of
        (r, cb', w') \<Rightarrow> run_calls cb' cs w')"

text \<open>A primary that raises whenever it is run.\<close>

definition raises :: "('a, 'w) thunk \<Rightarrow> bool" where
  "raises f = (\<forall>w. isl (fst (f w)))"

text \<open>The breaker has opened on a counted failure.\<close>

definition tripped :: "CircuitBreaker \<Rightarrow> bool" where
  "tripped cb = (state cb = OPEN \<and> failure_count cb \<ge> failure_threshold cb
                 \<and> last_failure_time cb \<noteq> None)"

subsection \<open>app/models/schemas.py\<close>

text \<open>
  Field \<^verbatim>\<open>id\<close> is \<open>video_id\<close> (resp. \<open>item_id\<close>), since \<^const>\<open>id\<close> is the identity of
  HOL.  Dicts are association lists.  \<^verbatim>\<open>filters\<close> is a \<^verbatim>\<open>Dict[str, Any]\<close> read at the keys
  \<^verbatim>\<open>exclude_tags\<close> (absent: the empty list) and \<^verbatim>\<open>max_maturity\<close> (absent: \<^verbatim>\<open>None\<close>).
\<close>

record UserSignals =
  user_hash :: string
  watched_ids :: "string list"
  affinities :: "(string \<times> real) list"
  last_demographics :: "(string \<times> string) list"

record VideoMetadata =
  video_id :: string
  title :: string
  score :: real
  tags :: "string list"
  maturity_rating :: string
  published_at :: int

record Filters =
  exclude_tags :: "string list"
  max_maturity :: "string option"

record TenantRankingRules =
  tenant_id :: string
  boost_weights :: "(string \<times> real) list"
  filters :: Filters
  editorial_boosts :: "(string \<times> int) list"

record ScoredVideo =
  video :: VideoMetadata
  final_score :: real
  score_breakdown :: "(string \<times> real) list"

record FeedItem =
  item_id :: string
  item_title :: string
  playback_url :: string
  tracking_token :: string
  debug_score :: "real option"

record FeedResponse =
  items :: "FeedItem list"
  next_cursor :: "string option"
  has_more :: bool
  degraded :: bool
  is_personalized :: bool

subsection \<open>app/services/ranking.py\<close>

datatype ScoringStrategy = RecencyScoring | AffinityScoring | PopularityScoring

definition DECAY_HOURS :: real where
  "DECAY_HOURS = 48"

text \<open>\<^verbatim>\<open>calculate_boost\<close> of the three strategies; \<open>now\<close> is the reading of \<^verbatim>\<open>time.time()\<close>.\<close>

fun calculate_boost ::
  "ScoringStrategy \<Rightarrow> real \<Rightarrow> VideoMetadata \<Rightarrow> UserSignals \<Rightarrow> TenantRankingRules
     \<Rightarrow> real \<times> string" where
  "calculate_boost RecencyScoring now v user config =
     (let age_hours = max 0 ((now - of_int (published_at v)) / 3600);
          boost = (if age_hours \<ge> DECAY_HOURS then 0
                   else let decay_factor = 1 - age_hours / DECAY_HOURS;
                            weight = dict_get (boost_weights config) ''recency'' 1
                        in weight * decay_factor)
      in (boost, ''recency''))"
| "calculate_boost AffinityScoring now v user config =
     (let max_affinity = foldl (\<lambda>m tag. max m (dict_get (affinities user) tag 0)) 0 (tags v);
          weight = dict_get (boost_weights config) ''user_affinity'' 1
      in (weight * max_affinity, ''affinity''))"
| "calculate_boost PopularityScoring now v user config =
     (dict_get (boost_weights config) ''popularity'' 1, ''popularity'')"

text \<open>\<^verbatim>\<open>RankingEngine.__init__\<close>: \<^verbatim>\<open>scoring_strategies or [RecencyScoring(), AffinityScoring()]\<close>.\<close>

definition engine_strategies :: "ScoringStrategy list option \<Rightarrow> ScoringStrategy list" where
  "engine_strategies given =
     (case given of
        None \<Rightarrow> [RecencyScoring, AffinityScoring]
      | Some ss \<Rightarrow> if ss = [] then [RecencyScoring, AffinityScoring] else ss)"

definition ratings :: "string list" where
  "ratings = [''G'', ''PG'', ''PG-13'', ''R'', ''NC-17'']"

definition is_maturity_allowed :: "string \<Rightarrow> string \<Rightarrow> bool" where
  "is_maturity_allowed video_rating max_rating =
     (case index_of ratings video_rating of
        None \<Rightarrow> True
      | Some video_idx \<Rightarrow>
          (case index_of ratings max_rating of
             None \<Rightarrow> True
           | Some max_idx \<Rightarrow> video_idx \<le> max_idx))"

text \<open>
  One iteration of the loop of \<^verbatim>\<open>_filter_candidates\<close>: does the video survive.  The test
  \<^verbatim>\<open>max_maturity and not ...\<close> is skipped for \<^verbatim>\<open>None\<close> and for the empty string.
\<close>

definition keeps :: "UserSignals \<Rightarrow> TenantRankingRules \<Rightarrow> VideoMetadata \<Rightarrow> bool" where
  "keeps user config v =
     (if video_id v \<in> set (watched_ids user) then False
      else if \<exists>tag \<in> set (tags v). tag \<in> set (exclude_tags (filters config)) then False
      else if (case max_maturity (filters config) of
                 None \<Rightarrow> False
               | Some m \<Rightarrow> m \<noteq> [] \<and> \<not> is_maturity_allowed (maturity_rating v) m) then False
      else True)"

definition filter_candidates ::
  "VideoMetadata list \<Rightarrow> UserSignals \<Rightarrow> TenantRankingRules \<Rightarrow> VideoMetadata list" where
  "filter_candidates candidates user config = filter (keeps user config) candidates"

definition empty_video :: VideoMetadata where
  "empty_video = \<lparr>video_id = [], title = [], score = 0, tags = [], maturity_rating = ''G'',
                   published_at = 0\<rparr>"

text \<open>The body of the loop of \<^verbatim>\<open>_score_candidates\<close> for one video.\<close>

definition score_video ::
  "ScoringStrategy list \<Rightarrow> real \<Rightarrow> real \<Rightarrow> UserSignals \<Rightarrow> TenantRankingRules \<Rightarrow> VideoMetadata
     \<Rightarrow> ScoredVideo" where
  "score_video strategies now popularity_weight user config v =
     (let base_score = score v * popularity_weight;
          (total_boost, breakdown) =
             foldl (\<lambda>(tb, bd) strategy.
                      let (boost, name) = calculate_boost strategy now v user config
                      in (tb + boost, dict_set name boost bd))
                   (0, [(''base'', base_score)]) strategies;
          final = base_score * (1 + total_boost);
          breakdown = dict_set ''final'' final (dict_set ''total_boost'' total_boost breakdown)
      in \<lparr>video = v, final_score = final, score_breakdown = breakdown\<rparr>)"

definition score_candidates ::
  "ScoringStrategy list \<Rightarrow> real \<Rightarrow> VideoMetadata list \<Rightarrow> UserSignals \<Rightarrow> TenantRankingRules
     \<Rightarrow> ScoredVideo list" where
  "score_candidates strategies now candidates user config =
     (let popularity_weight =
            fst (calculate_boost PopularityScoring now
                   (if candidates \<noteq> [] then hd candidates else empty_video) user config)
      in map (score_video strategies now popularity_weight user config) candidates)"

text \<open>
  \<^verbatim>\<open>_apply_editorial_boosts\<close>.  The first loop fills \<^verbatim>\<open>boosted_items\<close>, a dict keyed by the
  target position, and \<^verbatim>\<open>remaining\<close>; the second walks \<^verbatim>\<open>sorted(boosted_items.items())\<close>
  (the keys are distinct, so the order is by position) and inserts.
\<close>

definition extract_step ::
  "(string \<times> int) list \<Rightarrow> (int \<times> ScoredVideo) list \<times> ScoredVideo list \<Rightarrow> ScoredVideo
     \<Rightarrow> (int \<times> ScoredVideo) list \<times> ScoredVideo list" where
  "extract_step boosts acc item =
     (case map_of boosts (video_id (video item)) of
        Some position \<Rightarrow> (dict_set position item (fst acc), snd acc)
      | None \<Rightarrow> (fst acc, snd acc @ [item]))"

definition insert_step :: "ScoredVideo list \<Rightarrow> int \<times> ScoredVideo \<Rightarrow> ScoredVideo list" where
  "insert_step result entry =
     (let insert_idx = min (fst entry) (int (length result))
      in py_insert result insert_idx (snd entry))"

definition apply_editorial_boosts :: "ScoredVideo list \<Rightarrow> TenantRankingRules \<Rightarrow> ScoredVideo list" where
  "apply_editorial_boosts scored config =
     (if editorial_boosts config = [] then scored
      else
        let (boosted_items, remaining) = foldl (extract_step (editorial_boosts config)) ([], []) scored
        in foldl insert_step remaining (sort_key fst boosted_items))"

definition to_feed_item :: "real \<Rightarrow> ScoredVideo \<Rightarrow> FeedItem" where
  "to_feed_item now sv =
     \<lparr>item_id = video_id (video sv),
      item_title = title (video sv),
      playback_url = ''https://cdn.example.com/v/'' @ video_id (video sv) @ ''.m3u8'',
      tracking_token = ''tok_'' @ video_id (video sv) @ ''_'' @ str_int (py_int now),
      debug_score = Some (py_round2 (final_score sv))\<rparr>"

definition to_feed_items :: "real \<Rightarrow> ScoredVideo list \<Rightarrow> FeedItem list" where
  "to_feed_items now scored = map (to_feed_item now) scored"

text \<open>
  \<^verbatim>\<open>_decode_cursor\<close>.  \<open>loads c\<close> stands for
  \<^verbatim>\<open>json.loads(base64.b64decode(c).decode("utf-8"))\<close> of the standard library, \<^const>\<open>None\<close>
  when any of the three raises.  \<^verbatim>\<open>data.get\<close> on a value that is not a dict raises
  \<^verbatim>\<open>AttributeError\<close>, which the \<^verbatim>\<open>except Exception\<close> turns into offset 0.  The result is
  whatever the payload holds under \<^verbatim>\<open>"offset"\<close>.
\<close>

definition decode_cursor :: "(string \<Rightarrow> json option) \<Rightarrow> string option \<Rightarrow> json" where
  "decode_cursor loads cursor =
     (case cursor of
        None \<Rightarrow> JInt 0
      | Some c \<Rightarrow>
          if c = [] then JInt 0
          else (case loads c of
                  None \<Rightarrow> JInt 0
                | Some (JObj kvs) \<Rightarrow> dict_get kvs ''offset'' (JInt 0)
                | Some _ \<Rightarrow> JInt 0))"

text \<open>\<^verbatim>\<open>_encode_cursor\<close>: \<^verbatim>\<open>json.dumps({"offset": offset})\<close>, base64-encoded.\<close>

definition encode_cursor :: "int \<Rightarrow> string" where
  "encode_cursor offset = b64encode (''{\"offset\": '' @ str_int offset @ ''}'')"

text \<open>The list \<^verbatim>\<open>scored\<close> that \<^verbatim>\<open>rank\<close> holds after step 3 and after step 4.\<close>

definition sorted_scored ::
  "ScoringStrategy list \<Rightarrow> real \<Rightarrow> VideoMetadata list \<Rightarrow> UserSignals \<Rightarrow> TenantRankingRules
     \<Rightarrow> ScoredVideo list" where
  "sorted_scored strategies now candidates user config =
     py_sort_desc final_score
       (score_candidates strategies now (filter_candidates candidates user config) user config)"

definition ranked_sequence ::
  "ScoringStrategy list \<Rightarrow> real \<Rightarrow> VideoMetadata list \<Rightarrow> UserSignals \<Rightarrow> TenantRankingRules
     \<Rightarrow> ScoredVideo list" where
  "ranked_sequence strategies now candidates user config =
     apply_editorial_boosts (sorted_scored strategies now candidates user config) config"

text \<open>
  \<^verbatim>\<open>RankingEngine.rank\<close>: steps 5 to 7 on the sequence above.  Steps 1 to 4 cannot raise on
  well-typed arguments; the slice raises \<^verbatim>\<open>TypeError\<close> when the decoded offset is not an
  integer.
\<close>

definition rank ::
  "(string \<Rightarrow> json option) \<Rightarrow> ScoringStrategy list \<Rightarrow> real \<Rightarrow> VideoMetadata list \<Rightarrow> UserSignals
     \<Rightarrow> TenantRankingRules \<Rightarrow> int \<Rightarrow> string option
     \<Rightarrow> error + (FeedItem list \<times> string option \<times> bool)" where
  "rank loads strategies now candidates user config limit cursor =
     (let offset = decode_cursor loads cursor;
          scored = ranked_sequence strategies now candidates user config
      in case as_index offset of
           None \<Rightarrow> Inl TypeError
         | Some off \<Rightarrow>
             let page_items = py_slice scored off (off + limit);
                 has_more = int (length scored) > off + limit;
                 feed_items = to_feed_items now page_items;
                 next_cursor = (if has_more then Some (encode_cursor (off + limit)) else None)
             in Inr (feed_items, next_cursor, has_more))"

text \<open>What a client reads off a ranking result: the item ids, the cursor and the flag.\<close>

definition rank_ids ::
  "error + (FeedItem list \<times> string option \<times> bool) \<Rightarrow> error + (string list \<times> string option \<times> bool)" where
  "rank_ids r = (case r of Inl e \<Rightarrow> Inl e | Inr (its, nc, hm) \<Rightarrow> Inr (map item_id its, nc, hm))"

text \<open>The maturity ladder of the data model: \<open>G < PG < PG-13 < R < NC-17\<close>.\<close>

definition ladder_rank :: "string \<Rightarrow> nat option" where
  "ladder_rank r =
     (if r = ''G'' then Some 0 else if r = ''PG'' then Some 1 else if r = ''PG-13'' then Some 2
      else if r = ''R'' then Some 3 else if r = ''NC-17'' then Some 4 else None)"


subsection \<open>app/config/settings.py and the injected collaborators\<close>

record Settings =
  ROLLOUT_PERCENTAGE :: int
  MAX_FEED_LIMIT :: int

text \<open>
  The collaborators \<^verbatim>\<open>FeedService\<close> is constructed with: the feature-flag service, the three
  repositories (an awaited fetch either returns or raises) and the ranking engine (its strategy
  list and the standard library's cursor decoding).
\<close>

record Collaborators =
  is_personalization_enabled :: "string \<Rightarrow> string \<Rightarrow> bool"
  get_signals :: "string \<Rightarrow> error + UserSignals option"
  get_candidates :: "string \<Rightarrow> error + VideoMetadata list"
  get_config :: "string \<Rightarrow> error + TenantRankingRules option"
  get_default_config :: "string \<Rightarrow> TenantRankingRules"
  get_fallback_feed :: "string \<Rightarrow> error + VideoMetadata list"
  ranking_strategies :: "ScoringStrategy list"
  cursor_loads :: "string \<Rightarrow> json option"

subsection \<open>app/services/feed.py\<close>

text \<open>The \<^verbatim>\<open>FeedItem\<close> built for a video of a fallback list; \<open>pre\<close> is the token prefix.\<close>

definition plain_item :: "string \<Rightarrow> real \<Rightarrow> VideoMetadata \<Rightarrow> FeedItem" where
  "plain_item pre now v =
     \<lparr>item_id = video_id v,
      item_title = title v,
      playback_url = ''https://cdn.example.com/v/'' @ video_id v @ ''.m3u8'',
      tracking_token = pre @ video_id v @ ''_'' @ str_int (py_int now),
      debug_score = Some (score v)\<rparr>"

text \<open>\<^verbatim>\<open>FeedService._get_fallback_feed\<close>; \<^verbatim>\<open>fallback_videos[:limit]\<close> is a slice from 0.\<close>

definition fallback_feed ::
  "Collaborators \<Rightarrow> real \<Rightarrow> string \<Rightarrow> int \<Rightarrow> bool \<Rightarrow> error + FeedResponse" where
  "fallback_feed env now tenant limit dg =
     (case get_fallback_feed env tenant of
        Inl e \<Rightarrow> Inl e
      | Inr fallback_videos \<Rightarrow>
          Inr \<lparr>items = map (plain_item ''fallback_'' now) (py_slice fallback_videos 0 limit),
               next_cursor = None,
               has_more = False,
               degraded = dg,
               is_personalized = False\<rparr>)"

text \<open>\<^verbatim>\<open>FeedService._get_fallback_items_sync\<close>: \<^verbatim>\<open>sorted(candidates, key=score, reverse=True)[:limit]\<close>.\<close>

definition get_fallback_items_sync ::
  "VideoMetadata list \<Rightarrow> int \<Rightarrow> real \<Rightarrow> FeedItem list \<times> string option \<times> bool" where
  "get_fallback_items_sync candidates limit now =
     (let sorted_candidates = py_slice (py_sort_desc score candidates) 0 limit
      in (map (plain_item ''cb_fallback_'' now) sorted_candidates, None, False))"

definition empty_signals :: "string \<Rightarrow> UserSignals" where
  "empty_signals uh = \<lparr>user_hash = uh, watched_ids = [], affinities = [], last_demographics = []\<rparr>"

text \<open>
  \<^verbatim>\<open>FeedService._get_personalized_feed\<close>: the result and the breaker after the call.  The two
  lambdas handed to the breaker touch nothing outside it, so their world is \<^typ>\<open>unit\<close>; one
  clock reading \<open>now\<close> serves the whole request.
\<close>

definition get_personalized_feed ::
  "Collaborators \<Rightarrow> CircuitBreaker \<Rightarrow> real \<Rightarrow> string \<Rightarrow> string \<Rightarrow> int \<Rightarrow> string option
     \<Rightarrow> (error + FeedResponse) \<times> CircuitBreaker" where
  "get_personalized_feed env cb now tenant uh limit cursor =
     (case get_signals env uh of
        Inl e \<Rightarrow> (Inl e, cb)
      | Inr fetched_signals \<Rightarrow>
     (case get_candidates env tenant of
        Inl e \<Rightarrow> (Inl e, cb)
      | Inr fetched_candidates \<Rightarrow>
     (case get_config env tenant of
        Inl e \<Rightarrow> (Inl e, cb)
      | Inr fetched_config \<Rightarrow>
          let user_signals = (case fetched_signals of None \<Rightarrow> empty_signals uh | Some s \<Rightarrow> s)
          in if fetched_candidates = [] then (fallback_feed env now tenant limit True, cb)
             else
               let config = (case fetched_config of
                               None \<Rightarrow> get_default_config env tenant
                             | Some c \<Rightarrow> c);
                   candidates = (if length fetched_candidates > 200
                                 then take 200 fetched_candidates else fetched_candidates)
               in case call cb now now
                         (\<lambda>w. (rank (cursor_loads env) (ranking_strategies env) now candidates user_signals
                                  config limit cursor, w))
                         (Some (\<lambda>w. (Inr (get_fallback_items_sync candidates limit now), w)))
                         () of
                    (Inl e, cb', w) \<Rightarrow> (Inl e, cb')
                  | (Inr (its, nc, hm), cb', w) \<Rightarrow>
                      (Inr \<lparr>items = its, next_cursor = nc, has_more = hm, degraded = False,
                            is_personalized = True\<rparr>, cb'))))"

text \<open>The rollout gate of \<^verbatim>\<open>get_feed\<close>: \<^verbatim>\<open>sum(ord(c) for c in user_hash) % 100\<close>.\<close>

definition rollout_excluded :: "Settings \<Rightarrow> string \<Rightarrow> bool" where
  "rollout_excluded settings uh =
     (int (sum_list (map of_char uh) mod 100) \<ge> ROLLOUT_PERCENTAGE settings)"

text \<open>\<^verbatim>\<open>FeedService.get_feed\<close>: an exception that escapes is \<^const>\<open>Inl\<close>.\<close>

definition get_feed ::
  "Collaborators \<Rightarrow> Settings \<Rightarrow> CircuitBreaker \<Rightarrow> real \<Rightarrow> string \<Rightarrow> string \<Rightarrow> int \<Rightarrow> string option
     \<Rightarrow> (error + FeedResponse) \<times> CircuitBreaker" where
  "get_feed env settings cb now tenant uh limit cursor =
     (let personalization_enabled = is_personalization_enabled env tenant uh;
          personalization_enabled =
            (if rollout_excluded settings uh then False else personalization_enabled)
      in if \<not> personalization_enabled then (fallback_feed env now tenant limit False, cb)
         else (case get_personalized_feed env cb now tenant uh limit cursor of
                 (Inr feed_response, cb') \<Rightarrow> (Inr feed_response, cb')
               | (Inl e, cb') \<Rightarrow> (fallback_feed env now tenant limit True, cb')))"

subsection \<open>app/api/routers/feed.py\<close>

text \<open>
  What the handler hands back: the bare \<^verbatim>\<open>Response(status_code=304)\<close>, which has no content,
  or the feed response together with the headers the handler has set, in the order it set
  them.
\<close>

datatype http_result =
    NotModified
  | Served "(string \<times> string) list" FeedResponse

text \<open>
  The ETag block.  \<open>md5_hexdigest s\<close> stands for \<^verbatim>\<open>hashlib.md5(s.encode()).hexdigest()\<close> of the
  standard library.
\<close>

definition feed_etag :: "(string \<Rightarrow> string) \<Rightarrow> FeedItem list \<Rightarrow> string option" where
  "feed_etag md5_hexdigest its =
     (if its \<noteq> []
      then let content_str = concat (map item_id its);
               etag_hash = take 16 (md5_hexdigest content_str)
           in Some (''W/\"'' @ etag_hash @ ''\"'')
      else None)"

definition bool_str :: "bool \<Rightarrow> string" where
  "bool_str b = (if b then ''true'' else ''false'')"

text \<open>
  The handler \<^verbatim>\<open>get_feed\<close> of the router, after parameter validation; \<open>service\<close> is the injected
  \<^verbatim>\<open>feed_service.get_feed\<close>.
\<close>

definition router_get_feed ::
  "(string \<Rightarrow> string) \<Rightarrow> Settings
     \<Rightarrow> (string \<Rightarrow> string \<Rightarrow> int \<Rightarrow> string option \<Rightarrow> error + FeedResponse)
     \<Rightarrow> int \<Rightarrow> string option \<Rightarrow> string \<Rightarrow> string \<Rightarrow> string option \<Rightarrow> error + http_result" where
  "router_get_feed md5_hexdigest settings service limit cursor uh x_tenant_id if_none_match =
     (let effective_limit = min limit (MAX_FEED_LIMIT settings)
      in case service x_tenant_id uh effective_limit cursor of
           Inl e \<Rightarrow> Inl e
         | Inr feed_response \<Rightarrow>
             let etag = feed_etag md5_hexdigest (items feed_response);
                 headers = (case etag of None \<Rightarrow> [] | Some e \<Rightarrow> [(''ETag'', e)])
             in if (case (if_none_match, etag) of
                      (Some inm, Some e) \<Rightarrow> inm \<noteq> [] \<and> e \<noteq> [] \<and> inm = e
                    | _ \<Rightarrow> False)
                then Inr NotModified
                else
                  let headers =
                        (if is_personalized feed_response \<and> \<not> degraded feed_response
                         then headers @ [(''Cache-Control'', ''private, max-age=30''),
                                         (''Vary'', ''X-User-Hash'')]
                         else headers @ [(''Cache-Control'',
                                           ''public, max-age=30, stale-while-revalidate=15''),
                                         (''Vary'', ''Accept-Encoding'')]);
                      headers = headers @ [(''X-Personalized'', bool_str (is_personalized feed_response))]
                  in Inr (Served headers feed_response))"

section \<open>Concrete inputs\<close>

subsection \<open>Breaker calls that log what ran\<close>

text \<open>The world is the log of the callables that ran.\<close>

definition log_raise :: "(string, string list) thunk" where
  "log_raise w = (Inl (OtherError ''boom''), w @ [''primary''])"

definition log_return :: "(string, string list) thunk" where
  "log_return w = (Inr ''ranked'', w @ [''primary''])"

definition log_fallback :: "(string, string list) thunk" where
  "log_fallback w = (Inr ''fallback'', w @ [''fallback''])"

definition fresh_breaker :: CircuitBreaker where
  "fresh_breaker = \<lparr>failure_threshold = 2, recovery_timeout_sec = 30, state = CLOSED,
                     failure_count = 0, last_failure_time = None\<rparr>"

definition two_failures :: "(string, string list) breaker_call list" where
  "two_failures =
     [\<lparr>t_arrive = 1, t_fail = 2, primary = log_raise, fallback_fn = None\<rparr>,
      \<lparr>t_arrive = 3, t_fail = 4, primary = log_raise, fallback_fn = Some log_fallback\<rparr>]"

subsection \<open>Candidates, users, configs and cursors\<close>

text \<open>
  The standard library's \<^verbatim>\<open>json.loads(base64.b64decode(c).decode("utf-8"))\<close> at the cursors
  used below: the payloads \<^verbatim>\<open>{"offset": "a"}\<close>, \<^verbatim>\<open>{"offset": -1}\<close> and
  \<^verbatim>\<open>{"offset": n}\<close> for \<open>n\<close> from 1 to 4.
\<close>

definition stdlib_loads :: "string \<Rightarrow> json option" where
  "stdlib_loads c =
     map_of
       [(''eyJvZmZzZXQiOiAiYSJ9'', JObj [(''offset'', JStr ''a'')]),
        (''eyJvZmZzZXQiOiAtMX0='', JObj [(''offset'', JInt (- 1))]),
        (''eyJvZmZzZXQiOiAxfQ=='', JObj [(''offset'', JInt 1)]),
        (''eyJvZmZzZXQiOiAyfQ=='', JObj [(''offset'', JInt 2)]),
        (''eyJvZmZzZXQiOiAzfQ=='', JObj [(''offset'', JInt 3)]),
        (''eyJvZmZzZXQiOiA0fQ=='', JObj [(''offset'', JInt 4)])] c"

definition default_strategies :: "ScoringStrategy list" where
  "default_strategies = engine_strategies None"

definition mk_video :: "string \<Rightarrow> real \<Rightarrow> string list \<Rightarrow> string \<Rightarrow> VideoMetadata" where
  "mk_video i s ts m =
     \<lparr>video_id = i, title = ''Video '' @ i, score = s, tags = ts, maturity_rating = m,
      published_at = 3600\<rparr>"

definition new_user :: UserSignals where
  "new_user = \<lparr>user_hash = ''user_new'', watched_ids = [], affinities = [], last_demographics = []\<rparr>"

definition default_config :: TenantRankingRules where
  "default_config =
     \<lparr>tenant_id = ''tenant_test'',
      boost_weights = [(''recency'', 1), (''popularity'', 1), (''user_affinity'', 1)],
      filters = \<lparr>exclude_tags = [], max_maturity = None\<rparr>,
      editorial_boosts = []\<rparr>"

definition tie_candidates :: "VideoMetadata list" where
  "tie_candidates = [mk_video ''b'' 50 [] ''G'', mk_video ''a'' 50 [] ''G'']"

definition strict_user :: UserSignals where
  "strict_user = \<lparr>user_hash = ''user_strict'', watched_ids = [''v1''], affinities = [(''sports'', 1)],
                   last_demographics = []\<rparr>"

definition strict_config :: TenantRankingRules where
  "strict_config =
     \<lparr>tenant_id = ''tenant_news'',
      boost_weights = [(''recency'', 2), (''popularity'', 1), (''user_affinity'', 1 / 2)],
      filters = \<lparr>exclude_tags = [''politics''], max_maturity = Some ''PG-13''\<rparr>,
      editorial_boosts = [(''v4'', 0)]\<rparr>"

definition mixed_candidates :: "VideoMetadata list" where
  "mixed_candidates =
     [mk_video ''v1'' 95 [''sports''] ''G'',
      mk_video ''v2'' 90 [''politics'', ''news''] ''G'',
      mk_video ''v3'' 85 [''sports''] ''R'',
      mk_video ''v4'' 40 [''news''] ''PG'',
      mk_video ''v5'' 70 [''sports''] ''unrated'']"

definition mixed_items :: "FeedItem list" where
  "mixed_items =
     [\<lparr>item_id = ''v4'', item_title = ''Video v4'',
       playback_url = ''https://cdn.example.com/v/v4.m3u8'',
       tracking_token = ''tok_v4_7200'', debug_score = Some (11833 / 100)\<rparr>,
      \<lparr>item_id = ''v5'', item_title = ''Video v5'',
       playback_url = ''https://cdn.example.com/v/v5.m3u8'',
       tracking_token = ''tok_v5_7200'', debug_score = Some (6052 / 25)\<rparr>]"

definition collision_config :: TenantRankingRules where
  "collision_config = default_config\<lparr>editorial_boosts := [(''a'', 0), (''b'', 0)]\<rparr>"

definition collision_candidates :: "VideoMetadata list" where
  "collision_candidates =
     [mk_video ''a'' 90 [] ''G'', mk_video ''b'' 80 [] ''G'', mk_video ''c'' 70 [] ''G'']"



subsection \<open>A tenant and its collaborators\<close>

definition sports_videos :: "VideoMetadata list" where
  "sports_videos =
     [mk_video ''v1'' 95 [''sports'', ''football'', ''viral''] ''G'',
      mk_video ''v2'' 80 [''sports'', ''tennis''] ''G'',
      mk_video ''v3'' 60 [''strategy'', ''board_games''] ''G'',
      mk_video ''v4'' 85 [''viral'', ''animals''] ''G'',
      mk_video ''v5'' 40 [''news'', ''construction''] ''G'']"

text \<open>
  Collaborators in the manner of the in-memory repositories: one known tenant, whose fallback
  feed is its three most popular videos; every user is a cold start; no tenant config.
\<close>

definition demo_env :: "bool \<Rightarrow> Collaborators" where
  "demo_env flag =
     \<lparr>is_personalization_enabled = (\<lambda>tenant uh. flag),
      get_signals = (\<lambda>uh. Inr None),
      get_candidates = (\<lambda>tenant. if tenant = ''tenant_sports'' then Inr sports_videos else Inr []),
      get_config = (\<lambda>tenant. Inr None),
      get_default_config = (\<lambda>tenant. default_config\<lparr>tenant_id := tenant\<rparr>),
      get_fallback_feed =
        (\<lambda>tenant. if tenant = ''tenant_sports''
                  then Inr [mk_video ''v1'' 95 [''sports'', ''football'', ''viral''] ''G'',
                            mk_video ''v4'' 85 [''viral'', ''animals''] ''G'',
                            mk_video ''v2'' 80 [''sports'', ''tennis''] ''G'']
                  else Inr []),
      ranking_strategies = default_strategies,
      cursor_loads = stdlib_loads\<rparr>"

definition demo_settings :: Settings where
  "demo_settings = \<lparr>ROLLOUT_PERCENTAGE = 100, MAX_FEED_LIMIT = 50\<rparr>"

definition closed_breaker :: CircuitBreaker where
  "closed_breaker = \<lparr>failure_threshold = 5, recovery_timeout_sec = 30, state = CLOSED,
                      failure_count = 0, last_failure_time = None\<rparr>"

definition open_breaker :: CircuitBreaker where
  "open_breaker = \<lparr>failure_threshold = 5, recovery_timeout_sec = 30, state = OPEN,
                    failure_count = 5, last_failure_time = Some 363590\<rparr>"

text \<open>What a client reads off a feed response besides the items' contents.\<close>

definition response_summary ::
  "error + FeedResponse \<Rightarrow> error + (string list \<times> string option \<times> bool \<times> bool \<times> bool)" where
  "response_summary r =
     (case r of
        Inl e \<Rightarrow> Inl e
      | Inr resp \<Rightarrow> Inr (map tracking_token (items resp), next_cursor resp, has_more resp,
                          is_personalized resp, degraded resp))"

subsection \<open>Responses at the HTTP edge\<close>

text \<open>
  The standard library's \<^verbatim>\<open>hashlib.md5(s.encode()).hexdigest()\<close> at the two strings hashed
  below.
\<close>

definition stdlib_md5_hexdigest :: "string \<Rightarrow> string" where
  "stdlib_md5_hexdigest s =
     (if s = ''aaa'' then ''47bce5c74f589f4867dbd57e9ca9f808''
      else if s = ''v1v4'' then ''de6f5f58a9be543d21af4ad73d2a4fb6''
      else [])"

definition mk_response :: "string list \<Rightarrow> FeedResponse" where
  "mk_response ids =
     \<lparr>items = map (\<lambda>i. plain_item ''fallback_'' 363600 (mk_video i 50 [] ''G'')) ids,
      next_cursor = None, has_more = False, degraded = False, is_personalized = False\<rparr>"

text \<open>A feed service that answers every request with the given response.\<close>

definition fixed_service ::
  "FeedResponse \<Rightarrow> string \<Rightarrow> string \<Rightarrow> int \<Rightarrow> string option \<Rightarrow> error + FeedResponse" where
  "fixed_service resp tenant uh limit cursor = Inr resp"

section \<open>Properties\<close>

subsection \<open>TTL cache\<close>

text \<open>
  C9 (as the code has it).  \<^verbatim>\<open>get\<close> returns the stored value exactly when an entry exists and
  it has no expiry or \<open>now \<le> expires_at\<close> (so the value is still returned at the exact expiry
  instant); on an expired entry it removes the key and returns absent, and otherwise leaves
  the cache as it was.  \<^verbatim>\<open>set\<close> stores expiry \<open>now + ttl\<close> for the effective ttl (the explicit
  one if given, else the construction-time default) whenever that ttl is non-zero; an
  effective ttl that is absent or zero stores an entry that never expires.
\<close>

theorem cache_get_set_semantics:
  fixes c :: "'v InMemoryCache"
  shows "(fst (cache_get c now key) = Some v \<longleftrightarrow>
            (\<exists>e. store c key = Some e \<and> entry_value e = v \<and>
                 (case expires_at e of None \<Rightarrow> True | Some t \<Rightarrow> now \<le> t)))
       \<and> (\<forall>e t. store c key = Some e \<and> expires_at e = Some t \<and> t < now \<longrightarrow>
              cache_get c now key = (None, c\<lparr>store := (store c)(key := None)\<rparr>))
       \<and> (\<forall>e. store c key = Some e \<and> \<not> is_expired e now \<longrightarrow>
              cache_get c now key = (Some (entry_value e), c))
       \<and> (store c key = None \<longrightarrow> cache_get c now key = (None, c))
       \<and> (\<forall>t. t \<noteq> 0 \<longrightarrow>
              store (cache_set c now key v (Some t)) key
                = Some \<lparr>entry_value = v, expires_at = Some (now + t)\<rparr>)
       \<and> store (cache_set c now key v (Some 0)) key
            = Some \<lparr>entry_value = v, expires_at = None\<rparr>
       \<and> (\<forall>d. default_ttl c = Some d \<and> d \<noteq> 0 \<longrightarrow>
              store (cache_set c now key v None) key
                = Some \<lparr>entry_value = v, expires_at = Some (now + d)\<rparr>)
       \<and> (default_ttl c = None \<or> default_ttl c = Some 0 \<longrightarrow>
              store (cache_set c now key v None) key
                = Some \<lparr>entry_value = v, expires_at = None\<rparr>)"
  by (auto simp: cache_get_def cache_set_def is_expired_def split: option.splits)

theorem cache_get_set_semantics_witness:
  "store (cache_set \<lparr>store = Map.empty, default_ttl = Some 300\<rparr> 100 ''k'' ''v'' (Some 5)) ''k''
     = Some \<lparr>entry_value = ''v'', expires_at = Some 105\<rparr>
   \<and> cache_get (cache_set \<lparr>store = Map.empty, default_ttl = Some 300\<rparr> 100 ''k'' ''v'' (Some 5))
        105 ''k''
     = (Some ''v'', cache_set \<lparr>store = Map.empty, default_ttl = Some 300\<rparr> 100 ''k'' ''v'' (Some 5))
   \<and> fst (cache_get (cache_set \<lparr>store = Map.empty, default_ttl = Some 300\<rparr> 100 ''k'' ''v'' (Some 5))
        106 ''k'') = None
   \<and> store (snd (cache_get
        (cache_set \<lparr>store = Map.empty, default_ttl = Some 300\<rparr> 100 ''k'' ''v'' (Some 5))
        106 ''k'')) ''k'' = None
   \<and> store (cache_set \<lparr>store = Map.empty, default_ttl = Some 300\<rparr> 100 ''k'' ''v'' None) ''k''
     = Some \<lparr>entry_value = ''v'', expires_at = Some 400\<rparr>"
proof -
  let ?c0 = "\<lparr>store = Map.empty, default_ttl = Some (300::real)\<rparr> :: string InMemoryCache"
  let ?c1 = "cache_set ?c0 100 ''k'' ''v'' (Some 5)"
  note s0 = cache_get_set_semantics [of ?c0 100 "''k''" "''v''"]
  from s0 have a: "store ?c1 ''k'' = Some \<lparr>entry_value = ''v'', expires_at = Some 105\<rparr>"
    by simp
  from s0 have e: "store (cache_set ?c0 100 ''k'' ''v'' None) ''k''
      = Some \<lparr>entry_value = ''v'', expires_at = Some 400\<rparr>"
    by simp
  have ne: "\<not> is_expired \<lparr>entry_value = ''v'', expires_at = Some (105::real)\<rparr> 105"
    by (simp add: is_expired_def)
  from cache_get_set_semantics [of ?c1 105 "''k''" "''v''"] a ne
  have b: "cache_get ?c1 105 ''k'' = (Some ''v'', ?c1)"
    by simp
  from cache_get_set_semantics [of ?c1 106 "''k''" "''v''"] a
  have c: "cache_get ?c1 106 ''k'' = (None, ?c1\<lparr>store := (store ?c1)(''k'' := None)\<rparr>)"
    by simp
  from a b c e show ?thesis by simp
qed

text \<open>
  C9 as stated does not hold: an explicit ttl of 0 stores no expiry at all (although a default
  TTL of 300 was given at construction), so the entry is still served long after \<open>now + 0\<close>.
\<close>

theorem cache_set_zero_ttl_counterexample:
  "expires_at (the (store
       (cache_set \<lparr>store = Map.empty, default_ttl = Some 300\<rparr> 100 ''k'' ''v'' (Some 0)) ''k''))
     \<noteq> Some (100 + 0)
   \<and> fst (cache_get
       (cache_set \<lparr>store = Map.empty, default_ttl = Some 300\<rparr> 100 ''k'' ''v'' (Some 0))
       1000000 ''k'') = Some ''v''"
  by (simp add: cache_set_def cache_get_def is_expired_def)

subsection \<open>Circuit breaker\<close>

lemma call_params:
  "call cb ta tf f fb w = (r, cb', w') \<Longrightarrow>
     failure_threshold cb' = failure_threshold cb \<and> recovery_timeout_sec cb' = recovery_timeout_sec cb"
  by (auto simp: call_def on_success_def on_failure_def Let_def
           split: if_splits option.splits prod.splits sum.splits)

lemma call_tripped:
  assumes "tripped cb" "raises f" "call cb ta tf f fb w = (r, cb', w')"
  shows "tripped cb'"
proof -
  from assms(2) obtain e w1 where "f w = (Inl e, w1)"
    unfolding raises_def by (metis isl_def prod.collapse)
  with assms(1,3) show ?thesis
    by (auto simp: call_def on_failure_def tripped_def Let_def
             split: if_splits option.splits prod.splits)
qed

lemma call_closed:
  assumes "state cb = CLOSED" "raises f" "call cb ta tf f fb w = (r, cb', w')"
  shows "failure_count cb' = failure_count cb + 1
         \<and> (if failure_count cb + 1 \<ge> failure_threshold cb then tripped cb' else state cb' = CLOSED)"
proof -
  from assms(2) obtain e w1 where "f w = (Inl e, w1)"
    unfolding raises_def by (metis isl_def prod.collapse)
  with assms(1,3) show ?thesis
    by (auto simp: call_def on_failure_def tripped_def Let_def
             split: if_splits option.splits prod.splits)
qed

lemma run_calls_tripped:
  assumes "\<forall>c\<in>set cs. raises (primary c)"
    and "tripped cb \<or> (state cb = CLOSED \<and> failure_count cb + int (length cs) \<ge> failure_threshold cb \<and> cs \<noteq> [])"
  shows "tripped (fst (run_calls cb cs w))"
  using assms
proof (induction cs arbitrary: cb w)
  case Nil
  then show ?case by simp
next
  case (Cons c cs)
  obtain r cb' w' where c: "call cb (t_arrive c) (t_fail c) (primary c) (fallback_fn c) w = (r, cb', w')"
    by (metis prod.exhaust)
  have rc: "raises (primary c)" using Cons.prems(1) by simp
  have thr: "failure_threshold cb' = failure_threshold cb" using call_params [OF c] by simp
  have "tripped cb' \<or> (state cb' = CLOSED \<and> failure_count cb' + int (length cs) \<ge> failure_threshold cb' \<and> cs \<noteq> [])"
  proof (cases "tripped cb")
    case True
    then show ?thesis using call_tripped [OF _ rc c] by simp
  next
    case False
    with Cons.prems(2) have cl: "state cb = CLOSED"
      and le: "failure_count cb + int (length (c # cs)) \<ge> failure_threshold cb" by auto
    from call_closed [OF cl rc c] le thr show ?thesis
      by (cases cs) (auto split: if_splits)
  qed
  moreover have "\<forall>c\<in>set cs. raises (primary c)" using Cons.prems(1) by simp
  ultimately have "tripped (fst (run_calls cb' cs w'))" using Cons.IH by blast
  then show ?case using c by simp
qed


text \<open>
  C6.  Start from a CLOSED breaker (failure count not negative, threshold at least 1) and make
  \<open>failure_threshold\<close> consecutive calls whose primary raises.  The breaker is then OPEN with
  a recorded last failure time.  A next call arriving before \<open>recovery_timeout_sec\<close> has
  elapsed since that time leaves the breaker and runs only the fallback (the world after the
  call is the fallback's alone), or raises \<^const>\<open>CircuitBreakerOpenError\<close> without touching
  the world when no fallback is given.  A call arriving once the timeout has elapsed behaves
  as a call on the HALF_OPEN breaker: the primary runs; its success gives CLOSED with
  failure count 0, its failure gives OPEN again with the new failure time.
\<close>

theorem breaker_trip_and_recovery:
  fixes cb0 :: CircuitBreaker and cs :: "('a, 'w) breaker_call list"
    and w0 :: 'w and func :: "('a, 'w) thunk" and fb :: "('a, 'w) thunk" and fbo :: "('a, 'w) thunk option"
  assumes closed: "state cb0 = CLOSED"
    and count: "0 \<le> failure_count cb0"
    and thr: "1 \<le> failure_threshold cb0"
    and len: "int (length cs) = failure_threshold cb0"
    and fails: "\<forall>c\<in>set cs. raises (primary c)"
  defines "cb1 \<equiv> fst (run_calls cb0 cs w0)"
  shows "state cb1 = OPEN \<and> last_failure_time cb1 \<noteq> None
    \<and> (now - the (last_failure_time cb1) < recovery_timeout_sec cb1 \<longrightarrow>
          call cb1 now tf func (Some fb) w = (fst (fb w), cb1, snd (fb w))
        \<and> call cb1 now tf func None w = (Inl CircuitBreakerOpenError, cb1, w))
    \<and> (now - the (last_failure_time cb1) \<ge> recovery_timeout_sec cb1 \<longrightarrow>
          call cb1 now tf func fbo w = call (cb1\<lparr>state := HALF_OPEN\<rparr>) now tf func fbo w
        \<and> (\<forall>v w'. func w = (Inr v, w') \<longrightarrow>
               call cb1 now tf func fbo w
                 = (Inr v, cb1\<lparr>state := CLOSED, failure_count := 0\<rparr>, w'))
        \<and> (\<forall>e w'. func w = (Inl e, w') \<longrightarrow>
               state (fst (snd (call cb1 now tf func fbo w))) = OPEN
             \<and> last_failure_time (fst (snd (call cb1 now tf func fbo w))) = Some tf
             \<and> snd (snd (call cb1 now tf func fbo w))
                 = (case fbo of None \<Rightarrow> w' | Some g \<Rightarrow> snd (g w'))))"
proof -
  have "cs \<noteq> []" using thr len by auto
  with closed count len fails have t: "tripped cb1"
    unfolding cb1_def by (intro run_calls_tripped) auto
  then obtain tl where tl: "last_failure_time cb1 = Some tl" and op: "state cb1 = OPEN"
    and ge: "failure_count cb1 \<ge> failure_threshold cb1"
    by (auto simp: tripped_def)
  have short: "call cb1 now tf func (Some fb) w = (fst (fb w), cb1, snd (fb w))
        \<and> call cb1 now tf func None w = (Inl CircuitBreakerOpenError, cb1, w)"
    if "now - tl < recovery_timeout_sec cb1"
    using that tl op by (simp add: call_def should_attempt_reset_def split: prod.splits)
  have half: "call cb1 now tf func fbo w = call (cb1\<lparr>state := HALF_OPEN\<rparr>) now tf func fbo w"
    if "now - tl \<ge> recovery_timeout_sec cb1"
    using that tl op by (simp add: call_def should_attempt_reset_def)
  have succ: "call cb1 now tf func fbo w = (Inr v, cb1\<lparr>state := CLOSED, failure_count := 0\<rparr>, w')"
    if "now - tl \<ge> recovery_timeout_sec cb1" "func w = (Inr v, w')" for v w'
    using that tl op by (simp add: call_def should_attempt_reset_def on_success_def)
  have fail: "state (fst (snd (call cb1 now tf func fbo w))) = OPEN
             \<and> last_failure_time (fst (snd (call cb1 now tf func fbo w))) = Some tf
             \<and> snd (snd (call cb1 now tf func fbo w))
                 = (case fbo of None \<Rightarrow> w' | Some g \<Rightarrow> snd (g w'))"
    if "now - tl \<ge> recovery_timeout_sec cb1" "func w = (Inl e, w')" for e w'
    using that tl op ge
    by (simp add: call_def should_attempt_reset_def on_failure_def split: option.splits prod.splits)
  from op tl short half succ fail show ?thesis by simp
qed

lemma two_failures_run:
  "run_calls fresh_breaker two_failures [] =
     (\<lparr>failure_threshold = 2, recovery_timeout_sec = 30, state = OPEN,
       failure_count = 2, last_failure_time = Some 4\<rparr>, [''primary'', ''primary'', ''fallback''])"
  by (simp add: two_failures_def fresh_breaker_def call_def log_raise_def log_fallback_def
        on_failure_def)

text \<open>
  Threshold 2, timeout 30: two failing calls (failures at times 2 and 4) open the breaker;
  at time 33 the call short-circuits, at time 34 the primary runs again.
\<close>

theorem breaker_trip_and_recovery_witness:
  "state (fst (run_calls fresh_breaker two_failures [])) = OPEN
   \<and> call (fst (run_calls fresh_breaker two_failures [])) 33 34 log_return (Some log_fallback) []
       = (Inr ''fallback'', fst (run_calls fresh_breaker two_failures []), [''fallback''])
   \<and> call (fst (run_calls fresh_breaker two_failures [])) 33 34 log_return None []
       = (Inl CircuitBreakerOpenError, fst (run_calls fresh_breaker two_failures []), [])
   \<and> call (fst (run_calls fresh_breaker two_failures [])) 34 35 log_return None []
       = (Inr ''ranked'',
          (fst (run_calls fresh_breaker two_failures []))\<lparr>state := CLOSED, failure_count := 0\<rparr>,
          [''primary''])
   \<and> state (fst (snd (call (fst (run_calls fresh_breaker two_failures [])) 34 35 log_raise None [])))
       = OPEN"
proof -
  have h1: "state fresh_breaker = CLOSED" "0 \<le> failure_count fresh_breaker"
    "1 \<le> failure_threshold fresh_breaker"
    "int (length two_failures) = failure_threshold fresh_breaker"
    by (simp_all add: fresh_breaker_def two_failures_def)
  have h2: "\<forall>c\<in>set two_failures. raises (primary c)"
    by (simp add: two_failures_def raises_def log_raise_def)
  note th = breaker_trip_and_recovery [OF h1 h2, where ?w0.0 = "[]" and w = "[]"]
  have lft: "last_failure_time (fst (run_calls fresh_breaker two_failures [])) = Some 4"
    "recovery_timeout_sec (fst (run_calls fresh_breaker two_failures [])) = 30"
    by (simp_all add: two_failures_run)
  from th [of 33 34 log_return log_fallback None]
  have a: "state (fst (run_calls fresh_breaker two_failures [])) = OPEN
     \<and> call (fst (run_calls fresh_breaker two_failures [])) 33 34 log_return (Some log_fallback) []
       = (Inr ''fallback'', fst (run_calls fresh_breaker two_failures []), [''fallback''])
     \<and> call (fst (run_calls fresh_breaker two_failures [])) 33 34 log_return None []
       = (Inl CircuitBreakerOpenError, fst (run_calls fresh_breaker two_failures []), [])"
    unfolding lft by (simp add: log_fallback_def)
  from th [of 34 35 log_return log_fallback None]
  have b: "call (fst (run_calls fresh_breaker two_failures [])) 34 35 log_return None []
       = (Inr ''ranked'',
          (fst (run_calls fresh_breaker two_failures []))\<lparr>state := CLOSED, failure_count := 0\<rparr>,
          [''primary''])"
    unfolding lft by (auto simp add: log_return_def)
  from th [of 34 35 log_raise log_fallback None]
  have c: "state (fst (snd (call (fst (run_calls fresh_breaker two_failures [])) 34 35 log_raise None [])))
       = OPEN"
    unfolding lft by (auto simp add: log_raise_def)
  from a b c show ?thesis by simp
qed

subsection \<open>Ranking engine: helper facts\<close>

lemma set_py_slice: "set (py_slice xs a b) \<subseteq> set xs"
  unfolding py_slice_def Let_def
  by (meson set_take_subset set_drop_subset subset_trans)

lemma py_slice_nonneg:
  "0 \<le> a \<Longrightarrow> 0 \<le> n \<Longrightarrow> py_slice xs a (a + n) = take (nat n) (drop (nat a) xs)"
  by (cases "nat a \<le> length xs")
     (auto simp: py_slice_def py_bound_def Let_def min_def nat_add_distrib intro: take_all)

lemma set_py_insert: "set (py_insert xs i x) = insert x (set xs)"
proof -
  have "set (take j xs) \<union> set (drop j xs) = set xs" for j
    by (metis append_take_drop_id set_append)
  then show ?thesis by (auto simp: py_insert_def Let_def)
qed

lemma mset_py_insert: "mset (py_insert xs i x) = add_mset x (mset xs)"
proof -
  have "mset (take j xs) + mset (drop j xs) = mset xs" for j
    by (metis append_take_drop_id mset_append)
  then show ?thesis by (simp add: py_insert_def Let_def)
qed

lemma set_py_sort_desc: "set (py_sort_desc f xs) = set xs"
  by (simp add: py_sort_desc_def)

lemma mset_py_sort_desc: "mset (py_sort_desc f xs) = mset xs"
  by (simp add: py_sort_desc_def)

lemma py_sort_desc_sorted: "sorted_wrt (\<lambda>a b. f a \<ge> f b) (py_sort_desc f xs)"
proof -
  have "sorted (map f (sort_key f (rev xs)))" by simp
  then have "sorted_wrt (\<lambda>a b. f a \<le> f b) (sort_key f (rev xs))"
    by (simp add: sorted_map)
  then show ?thesis
    unfolding py_sort_desc_def by (simp add: sorted_wrt_rev)
qed

lemma py_sort_desc_stable:
  "filter (\<lambda>y. f y = k) (py_sort_desc f xs) = filter (\<lambda>y. f y = k) xs"
  unfolding py_sort_desc_def
  by (simp add: rev_filter [symmetric] sort_key_stable)

lemma pair_subseq:
  assumes "i < j" "j < length xs"
  shows "subseq [xs ! i, xs ! j] xs"
proof -
  from assms have i: "i < length xs" by simp
  have a: "xs = take i xs @ xs ! i # drop (Suc i) xs"
    using id_take_nth_drop [OF i] .
  from assms have j': "j - Suc i < length (drop (Suc i) xs)" by simp
  have nj: "drop (Suc i) xs ! (j - Suc i) = xs ! j" using assms by simp
  have "xs ! j \<in> set (drop (Suc i) xs)"
    using nth_mem [OF j'] nj by simp
  then have "subseq [xs ! j] (drop (Suc i) xs)"
    by (simp add: subseq_singleton_left)
  then have "subseq [xs ! i, xs ! j] (xs ! i # drop (Suc i) xs)" by simp
  then have "subseq [xs ! i, xs ! j] (take i xs @ xs ! i # drop (Suc i) xs)"
    by (rule list_emb_append2)
  with a show ?thesis by simp
qed

lemma stable_pairs:
  assumes eq: "filter (\<lambda>y. f y = k) ys = filter (\<lambda>y. f y = k) xs"
    and "i < j" "j < length xs" "f (xs ! i) = k" "f (xs ! j) = k"
  shows "subseq [xs ! i, xs ! j] ys"
proof -
  have "subseq (filter (\<lambda>y. f y = k) [xs ! i, xs ! j]) (filter (\<lambda>y. f y = k) xs)"
    by (rule subseq_filter) (rule pair_subseq [OF assms(2,3)])
  with assms(4,5) eq have "subseq [xs ! i, xs ! j] (filter (\<lambda>y. f y = k) ys)" by simp
  moreover have "subseq (filter (\<lambda>y. f y = k) ys) ys" by simp
  ultimately show ?thesis by (rule subseq_order.trans)
qed

lemma set_dict_set: "snd ` set (dict_set k v d) \<subseteq> insert v (snd ` set d)"
  by (induction d) auto

lemma extract_fold_subset:
  "snd ` set (fst (foldl (extract_step boosts) acc scored)) \<union> set (snd (foldl (extract_step boosts) acc scored))
     \<subseteq> snd ` set (fst acc) \<union> set (snd acc) \<union> set scored"
proof (induction scored arbitrary: acc)
  case Nil
  then show ?case by simp
next
  case (Cons s scored)
  have "snd ` set (fst (extract_step boosts acc s)) \<union> set (snd (extract_step boosts acc s))
          \<subseteq> snd ` set (fst acc) \<union> set (snd acc) \<union> {s}"
    using set_dict_set [of _ s "fst acc"]
    by (auto simp: extract_step_def split: option.splits)
  with Cons.IH [of "extract_step boosts acc s"] show ?case
    unfolding foldl_Cons list.set by blast
qed

lemma insert_fold_set:
  "set (foldl insert_step res entries) = set res \<union> snd ` set entries"
  by (induction entries arbitrary: res) (auto simp: insert_step_def set_py_insert Let_def)

lemma set_apply_editorial_boosts:
  "set (apply_editorial_boosts scored config) \<subseteq> set scored"
proof (cases "editorial_boosts config = []")
  case True
  then show ?thesis by (simp add: apply_editorial_boosts_def)
next
  case False
  obtain b r where br: "foldl (extract_step (editorial_boosts config)) ([], []) scored = (b, r)"
    by (metis prod.exhaust)
  from extract_fold_subset [of "editorial_boosts config" "([], [])" scored] br
  have "snd ` set b \<union> set r \<subseteq> set scored" by simp
  with False br show ?thesis
    by (auto simp: apply_editorial_boosts_def insert_fold_set)
qed

lemma set_score_candidates:
  "s \<in> set (score_candidates strategies now cands user config) \<Longrightarrow> video s \<in> set cands"
  by (auto simp: score_candidates_def score_video_def Let_def split: prod.splits)

lemma ranked_sequence_videos:
  assumes "s \<in> set (ranked_sequence strategies now candidates user config)"
  shows "video s \<in> set candidates \<and> keeps user config (video s)"
proof -
  from assms set_apply_editorial_boosts
  have "s \<in> set (sorted_scored strategies now candidates user config)"
    unfolding ranked_sequence_def by blast
  then have "video s \<in> set (filter_candidates candidates user config)"
    unfolding sorted_scored_def set_py_sort_desc by (rule set_score_candidates)
  then show ?thesis by (simp add: filter_candidates_def)
qed

lemma index_of_ratings: "index_of ratings r = ladder_rank r"
  by (simp add: ratings_def ladder_rank_def)

lemma rank_items:
  assumes "rank loads strategies now candidates user config limit cursor = Inr (its, nc, hm)"
  shows "\<exists>off. as_index (decode_cursor loads cursor) = Some off
           \<and> its = to_feed_items now
                     (py_slice (ranked_sequence strategies now candidates user config) off (off + limit))
           \<and> hm = (int (length (ranked_sequence strategies now candidates user config)) > off + limit)
           \<and> nc = (if hm then Some (encode_cursor (off + limit)) else None)"
  using assms by (auto simp: rank_def Let_def split: option.splits)

lemmas rank_eval =
  rank_def decode_cursor_def ranked_sequence_def sorted_scored_def apply_editorial_boosts_def
  py_sort_desc_def score_candidates_def filter_candidates_def keeps_def mk_video_def
  score_video_def default_strategies_def engine_strategies_def DECAY_HOURS_def dict_get_def
  py_slice_def py_bound_def to_feed_items_def to_feed_item_def Let_def is_maturity_allowed_def
  ratings_def extract_step_def insert_step_def py_insert_def default_config_def new_user_def
  stdlib_loads_def

lemmas text_eval =
  encode_cursor_def b64encode_def str_int_def str_nat.simps b64_char_def digit_char_def
  py_int_def py_round2_def

subsection \<open>Ranking engine: order of the sorted candidates\<close>

text \<open>
  C2 (as the code has it).  After scoring, the surviving candidates are sorted by
  \<open>final_score\<close> descending and by nothing else: the sorted list is a permutation of the scored
  survivors, scores never increase along it, and ties keep the order of the candidate list.
  The scored list follows the filtered candidate list; for every pair of its entries with
  equal \<open>final_score\<close>, the one that stands earlier in it stands earlier in the sorted list
  (the pair, in that order, is a subsequence of the sorted list), and for every score \<open>k\<close> the
  sorted list restricted to score \<open>k\<close> is the scored list restricted to score \<open>k\<close>.  Without
  editorial boosts the sorted list is the ranked sequence.
\<close>

theorem sort_descending_stable:
  "mset (sorted_scored ss now cands user config)
     = mset (score_candidates ss now (filter_candidates cands user config) user config)
   \<and> sorted_wrt (\<lambda>a b. final_score a \<ge> final_score b) (sorted_scored ss now cands user config)
   \<and> map video (score_candidates ss now (filter_candidates cands user config) user config)
       = filter_candidates cands user config
   \<and> (\<forall>i j. i < j
         \<and> j < length (score_candidates ss now (filter_candidates cands user config) user config)
         \<and> final_score (score_candidates ss now (filter_candidates cands user config) user config ! i)
           = final_score (score_candidates ss now (filter_candidates cands user config) user config ! j)
         \<longrightarrow> subseq [score_candidates ss now (filter_candidates cands user config) user config ! i,
                        score_candidates ss now (filter_candidates cands user config) user config ! j]
                       (sorted_scored ss now cands user config))
   \<and> filter (\<lambda>s. final_score s = k) (sorted_scored ss now cands user config)
       = filter (\<lambda>s. final_score s = k)
           (score_candidates ss now (filter_candidates cands user config) user config)
   \<and> (editorial_boosts config = [] \<longrightarrow>
         ranked_sequence ss now cands user config = sorted_scored ss now cands user config)"
proof -
  let ?S = "score_candidates ss now (filter_candidates cands user config) user config"
  have v: "map video (score_candidates ss now fs user config) = fs" for fs
    by (induction fs) (auto simp: score_candidates_def score_video_def Let_def split: prod.splits)
  have p: "subseq [?S ! i, ?S ! j] (sorted_scored ss now cands user config)"
    if "i < j" "j < length ?S" "final_score (?S ! i) = final_score (?S ! j)" for i j
    unfolding sorted_scored_def
    by (rule stable_pairs [OF py_sort_desc_stable that(1,2) that(3) refl])
  from v p show ?thesis
    by (simp add: sorted_scored_def mset_py_sort_desc py_sort_desc_sorted py_sort_desc_stable
          ranked_sequence_def apply_editorial_boosts_def)
qed

lemma tie_scored:
  "score_candidates default_strategies 363600
     (filter_candidates tie_candidates new_user default_config) new_user default_config
   = [\<lparr>video = mk_video ''b'' 50 [] ''G'', final_score = 50,
       score_breakdown = [(''base'', 50), (''recency'', 0), (''affinity'', 0),
                          (''total_boost'', 0), (''final'', 50)]\<rparr>,
      \<lparr>video = mk_video ''a'' 50 [] ''G'', final_score = 50,
       score_breakdown = [(''base'', 50), (''recency'', 0), (''affinity'', 0),
                          (''total_boost'', 0), (''final'', 50)]\<rparr>]"
  by (simp add: rank_eval tie_candidates_def)

theorem sort_descending_stable_witness:
  "map (video_id \<circ> video)
     (filter (\<lambda>s. final_score s = 50)
        (sorted_scored default_strategies 363600 tie_candidates new_user default_config))
     = [''b'', ''a'']
   \<and> subseq
       [score_candidates default_strategies 363600
          (filter_candidates tie_candidates new_user default_config) new_user default_config ! 0,
        score_candidates default_strategies 363600
          (filter_candidates tie_candidates new_user default_config) new_user default_config ! 1]
       (sorted_scored default_strategies 363600 tie_candidates new_user default_config)
   \<and> ranked_sequence default_strategies 363600 tie_candidates new_user default_config
     = sorted_scored default_strategies 363600 tie_candidates new_user default_config"
proof -
  let ?S = "score_candidates default_strategies 363600
              (filter_candidates tie_candidates new_user default_config) new_user default_config"
  have e: "editorial_boosts default_config = []" by (simp add: default_config_def)
  have t: "(0::nat) < 1 \<and> 1 < length ?S \<and> final_score (?S ! 0) = final_score (?S ! 1)"
    unfolding tie_scored by simp
  note th = sort_descending_stable [of default_strategies 363600 tie_candidates new_user
      default_config 50]
  from th t have a: "subseq [?S ! 0, ?S ! 1]
      (sorted_scored default_strategies 363600 tie_candidates new_user default_config)"
    by blast
  from th e have b: "map (video_id \<circ> video)
     (filter (\<lambda>s. final_score s = 50)
        (sorted_scored default_strategies 363600 tie_candidates new_user default_config))
     = [''b'', ''a'']
   \<and> ranked_sequence default_strategies 363600 tie_candidates new_user default_config
     = sorted_scored default_strategies 363600 tie_candidates new_user default_config"
    unfolding tie_scored by (simp add: mk_video_def)
  from a b show ?thesis by simp
qed

text \<open>
  C2 as stated does not hold: two candidates that differ in nothing but their ids, listed as
  \<open>b\<close> then \<open>a\<close>, get the same final score 50 and come out as \<open>b\<close> then \<open>a\<close>, the larger id
  first.
\<close>

theorem sort_tie_by_id_counterexample:
  "map final_score (sorted_scored default_strategies 363600 tie_candidates new_user default_config)
     = [50, 50]
   \<and> rank_ids (rank stdlib_loads default_strategies 363600 tie_candidates new_user default_config
                 20 None)
     = Inr ([''b'', ''a''], None, False)"
  by (simp add: rank_ids_def rank_eval tie_candidates_def)

subsection \<open>Ranking engine: filters\<close>

text \<open>
  C7.  Every item that \<^verbatim>\<open>rank\<close> returns carries an id that is not in the user's watched ids,
  and it is the item of a candidate with that id and title none of whose tags is an excluded
  tag and whose maturity rating, when a cap is configured and both the rating and the cap are
  on the ladder, is not above the cap.  Editorial items are covered: the override step only
  rearranges candidates that survived the filter.
\<close>

theorem rank_filter_soundness:
  assumes "rank loads ss now cands user config limit cursor = Inr (its, nc, hm)"
    and "it \<in> set its"
  shows "item_id it \<notin> set (watched_ids user)
       \<and> (\<exists>v \<in> set cands.
             video_id v = item_id it \<and> title v = item_title it
           \<and> set (tags v) \<inter> set (exclude_tags (filters config)) = {}
           \<and> (\<forall>cap vr cr.
                 max_maturity (filters config) = Some cap
               \<and> ladder_rank (maturity_rating v) = Some vr \<and> ladder_rank cap = Some cr
               \<longrightarrow> vr \<le> cr))"
proof -
  from rank_items [OF assms(1)] obtain off where
    its: "its = to_feed_items now
            (py_slice (ranked_sequence ss now cands user config) off (off + limit))"
    by blast
  with assms(2) obtain s where
    s: "s \<in> set (py_slice (ranked_sequence ss now cands user config) off (off + limit))"
    and it: "it = to_feed_item now s"
    by (auto simp: to_feed_items_def)
  from s have "s \<in> set (ranked_sequence ss now cands user config)"
    by (rule subsetD [OF set_py_slice])
  from ranked_sequence_videos [OF this]
  have v: "video s \<in> set cands" and k: "keeps user config (video s)" by simp_all
  from k have w: "video_id (video s) \<notin> set (watched_ids user)"
    and t: "set (tags (video s)) \<inter> set (exclude_tags (filters config)) = {}"
    and m: "\<forall>cap. max_maturity (filters config) = Some cap \<longrightarrow>
              cap = [] \<or> is_maturity_allowed (maturity_rating (video s)) cap"
    by (auto simp: keeps_def split: if_splits option.splits)
  have l: "vr \<le> cr"
    if "max_maturity (filters config) = Some cap"
      "ladder_rank (maturity_rating (video s)) = Some vr" "ladder_rank cap = Some cr"
    for cap vr cr
  proof -
    from that(3) have "cap \<noteq> []" by (auto simp: ladder_rank_def split: if_splits)
    with m that(1) have "is_maturity_allowed (maturity_rating (video s)) cap" by blast
    with that(2,3) show ?thesis
      by (simp add: is_maturity_allowed_def index_of_ratings)
  qed
  from it have "item_id it = video_id (video s)" "item_title it = title (video s)"
    by (simp_all add: to_feed_item_def)
  with v w t l show ?thesis by (intro conjI bexI [of _ "video s"]) auto
qed

lemma mixed_rank:
  "rank stdlib_loads default_strategies 7200 mixed_candidates strict_user strict_config 20 None
     = Inr (mixed_items, None, False)"
  by (simp add: rank_eval text_eval strict_config_def mixed_candidates_def strict_user_def
        mixed_items_def)

text \<open>
  Five candidates: \<open>v1\<close> is watched, \<open>v2\<close> carries the excluded tag, \<open>v3\<close> is rated R above the
  cap PG-13, \<open>v4\<close> (PG, pinned editorially to position 0) and \<open>v5\<close> (a rating outside the
  ladder) are returned.
\<close>

theorem rank_filter_soundness_witness:
  "rank stdlib_loads default_strategies 7200 mixed_candidates strict_user strict_config 20 None
     = Inr (mixed_items, None, False)
   \<and> map item_id mixed_items = [''v4'', ''v5'']
   \<and> ''v4'' \<notin> set (watched_ids strict_user)
   \<and> (\<exists>v \<in> set mixed_candidates.
         video_id v = ''v4'' \<and> title v = ''Video v4''
       \<and> set (tags v) \<inter> set (exclude_tags (filters strict_config)) = {}
       \<and> (\<forall>cap vr cr.
             max_maturity (filters strict_config) = Some cap
           \<and> ladder_rank (maturity_rating v) = Some vr \<and> ladder_rank cap = Some cr
           \<longrightarrow> vr \<le> cr))"
proof -
  have "hd mixed_items \<in> set mixed_items" by (simp add: mixed_items_def)
  from rank_filter_soundness [OF mixed_rank this] mixed_rank
  show ?thesis by (simp add: mixed_items_def)
qed

subsection \<open>Ranking engine: editorial overrides and cursors at concrete inputs\<close>

text \<open>
  C3 at a collision.  Candidates \<open>a\<close>, \<open>b\<close>, \<open>c\<close> (scores 90, 80, 70) with both \<open>a\<close> and \<open>b\<close>
  pinned to position 0: \<^verbatim>\<open>boosted_items\<close> is keyed by position, so \<open>b\<close> overwrites \<open>a\<close> and the
  result holds \<open>b\<close> and \<open>c\<close> only.
\<close>

theorem editorial_collision_drops_item:
  "rank_ids (rank stdlib_loads default_strategies 363600 collision_candidates new_user
               collision_config 20 None)
     = Inr ([''b'', ''c''], None, False)"
  by (simp add: rank_ids_def rank_eval collision_candidates_def collision_config_def)

text \<open>
  C4 at two decodable cursors.  The cursor for the payload \<^verbatim>\<open>{"offset": "a"}\<close> makes \<^verbatim>\<open>rank\<close>
  raise \<^verbatim>\<open>TypeError\<close>; the cursor for \<^verbatim>\<open>{"offset": -1}\<close> is used as offset \<open>-1\<close> and yields the
  last candidate instead of the first page \<open>b\<close>, \<open>a\<close>.
\<close>

theorem cursor_payload_not_validated:
  "rank stdlib_loads default_strategies 363600 tie_candidates new_user default_config 20
      (Some ''eyJvZmZzZXQiOiAiYSJ9'')
     = Inl TypeError
   \<and> rank_ids (rank stdlib_loads default_strategies 363600 tie_candidates new_user default_config
                 20 (Some ''eyJvZmZzZXQiOiAtMX0=''))
     = Inr ([''a''], None, False)"
  by (simp add: rank_ids_def rank_eval tie_candidates_def)

subsection \<open>Ranking engine: pagination\<close>










subsection \<open>Feed orchestrator\<close>

lemmas feed_eval =
  get_feed_def get_personalized_feed_def fallback_feed_def get_fallback_items_sync_def
  plain_item_def rollout_excluded_def demo_env_def demo_settings_def empty_signals_def call_def
  should_attempt_reset_def on_success_def on_failure_def response_summary_def sports_videos_def

text \<open>
  C1 at two failing ranked calls, for the tenant with five candidates, a cold-start user and
  limit 2.  First the breaker is OPEN (last failure 10 seconds ago, timeout 30); second the
  breaker is CLOSED and the cursor decodes to the payload \<^verbatim>\<open>{"offset": "a"}\<close>, on which \<^verbatim>\<open>rank\<close>
  raises.  Both times the inline popularity-sorted fallback is returned (the tracking tokens
  are those of \<^verbatim>\<open>_get_fallback_items_sync\<close>), wrapped in a response with
  \<open>is_personalized = True\<close> and \<open>degraded = False\<close>; the second call is counted as a failure.
\<close>

theorem breaker_fallback_marked_personalized:
  "response_summary (fst (get_feed (demo_env True) demo_settings open_breaker 363600
                            ''tenant_sports'' ''user_new'' 2 None))
     = Inr ([''cb_fallback_v1_363600'', ''cb_fallback_v4_363600''], None, False, True, False)
   \<and> response_summary (fst (get_feed (demo_env True) demo_settings closed_breaker 363600
                              ''tenant_sports'' ''user_new'' 2 (Some ''eyJvZmZzZXQiOiAiYSJ9'')))
     = Inr ([''cb_fallback_v1_363600'', ''cb_fallback_v4_363600''], None, False, True, False)
   \<and> snd (get_feed (demo_env True) demo_settings closed_breaker 363600
             ''tenant_sports'' ''user_new'' 2 (Some ''eyJvZmZzZXQiOiAiYSJ9''))
     = closed_breaker\<lparr>failure_count := 1, last_failure_time := Some 363600\<rparr>"
  by (simp add: feed_eval rank_eval text_eval open_breaker_def closed_breaker_def)

lemma py_slice_prefix: "0 \<le> n \<Longrightarrow> py_slice xs 0 n = take (nat n) xs"
  using py_slice_nonneg [of 0 n xs] by simp

text \<open>
  C10.  A response built by \<^verbatim>\<open>_get_fallback_feed\<close> has no cursor, \<open>has_more = False\<close> and
  \<open>is_personalized = False\<close>, carries the requested \<open>degraded\<close> flag, and (for a limit that is
  not negative) its items are the items of the first \<open>min limit length\<close> videos of the
  precomputed fallback feed, in order.  \<^verbatim>\<open>get_feed\<close> returns exactly that response, whatever the
  cursor, when the user is outside the rollout or the flag service says no (\<open>degraded\<close> false),
  and, inside the gate, when the personalized flow raises (in particular when a fetch of
  signals, candidates or config raises) or the candidate list is empty (\<open>degraded\<close> true).
\<close>

theorem fallback_feed_unpaginated:
  "(\<forall>resp. fallback_feed env now tenant limit dg = Inr resp \<longrightarrow>
        next_cursor resp = None \<and> \<not> has_more resp \<and> \<not> is_personalized resp
      \<and> degraded resp = dg
      \<and> (\<exists>videos. get_fallback_feed env tenant = Inr videos
            \<and> (0 \<le> limit \<longrightarrow>
                  items resp = map (plain_item ''fallback_'' now) (take (nat limit) videos)
                \<and> length (items resp) = min (nat limit) (length videos))))
   \<and> (rollout_excluded settings uh \<or> \<not> is_personalization_enabled env tenant uh \<longrightarrow>
        get_feed env settings cb now tenant uh limit cursor
          = (fallback_feed env now tenant limit False, cb))
   \<and> (\<not> rollout_excluded settings uh \<and> is_personalization_enabled env tenant uh \<longrightarrow>
        (\<forall>e cb'. get_personalized_feed env cb now tenant uh limit cursor = (Inl e, cb') \<longrightarrow>
           get_feed env settings cb now tenant uh limit cursor
             = (fallback_feed env now tenant limit True, cb'))
      \<and> (\<forall>e. get_signals env uh = Inl e
               \<or> (\<exists>s. get_signals env uh = Inr s \<and> get_candidates env tenant = Inl e)
               \<or> (\<exists>s c. get_signals env uh = Inr s \<and> get_candidates env tenant = Inr c
                        \<and> get_config env tenant = Inl e) \<longrightarrow>
           get_feed env settings cb now tenant uh limit cursor
             = (fallback_feed env now tenant limit True, cb))
      \<and> ((\<exists>s c. get_signals env uh = Inr s \<and> get_candidates env tenant = Inr []
                \<and> get_config env tenant = Inr c) \<longrightarrow>
           get_feed env settings cb now tenant uh limit cursor
             = (fallback_feed env now tenant limit True, cb)))"
proof -
  have shape: "next_cursor resp = None \<and> \<not> has_more resp \<and> \<not> is_personalized resp
      \<and> degraded resp = dg
      \<and> (\<exists>videos. get_fallback_feed env tenant = Inr videos
            \<and> (0 \<le> limit \<longrightarrow>
                  items resp = map (plain_item ''fallback_'' now) (take (nat limit) videos)
                \<and> length (items resp) = min (nat limit) (length videos)))"
    if "fallback_feed env now tenant limit dg = Inr resp" for resp
    using that by (auto simp: fallback_feed_def py_slice_prefix split: sum.splits)
  have gate: "get_feed env settings cb now tenant uh limit cursor
          = (fallback_feed env now tenant limit False, cb)"
    if "rollout_excluded settings uh \<or> \<not> is_personalization_enabled env tenant uh"
    using that by (auto simp: get_feed_def)
  have caught: "get_feed env settings cb now tenant uh limit cursor
             = (fallback_feed env now tenant limit True, cb')"
    if "\<not> rollout_excluded settings uh" "is_personalization_enabled env tenant uh"
      "get_personalized_feed env cb now tenant uh limit cursor = (Inl e, cb')" for e cb'
    using that by (simp add: get_feed_def)
  have fetch: "get_feed env settings cb now tenant uh limit cursor
             = (fallback_feed env now tenant limit True, cb)"
    if "\<not> rollout_excluded settings uh" "is_personalization_enabled env tenant uh"
      "get_signals env uh = Inl e
               \<or> (\<exists>s. get_signals env uh = Inr s \<and> get_candidates env tenant = Inl e)
               \<or> (\<exists>s c. get_signals env uh = Inr s \<and> get_candidates env tenant = Inr c
                        \<and> get_config env tenant = Inl e)" for e
  proof -
    from that(3) have "get_personalized_feed env cb now tenant uh limit cursor = (Inl e, cb)"
      by (auto simp: get_personalized_feed_def)
    from caught [OF that(1,2) this] show ?thesis .
  qed
  have empty: "get_feed env settings cb now tenant uh limit cursor
             = (fallback_feed env now tenant limit True, cb)"
    if "\<not> rollout_excluded settings uh" "is_personalization_enabled env tenant uh"
      "\<exists>s c. get_signals env uh = Inr s \<and> get_candidates env tenant = Inr []
                \<and> get_config env tenant = Inr c"
  proof -
    from that(3)
    have p: "get_personalized_feed env cb now tenant uh limit cursor
               = (fallback_feed env now tenant limit True, cb)"
      by (auto simp: get_personalized_feed_def)
    show ?thesis
    proof (cases "fallback_feed env now tenant limit True")
      case (Inl e)
      with p caught [OF that(1,2), of e cb] show ?thesis by simp
    next
      case (Inr resp)
      with p that(1,2) show ?thesis by (simp add: get_feed_def)
    qed
  qed
  from shape gate caught fetch empty show ?thesis by blast
qed

text \<open>
  The fallback feed of the tenant has three videos.  With the flag service saying no, limit 2
  and the cursor for offset 2, the response holds the first two fallback videos and no
  cursor; for a tenant without candidates the response is the (empty) fallback, degraded.
\<close>

theorem fallback_feed_unpaginated_witness:
  "get_feed (demo_env False) demo_settings closed_breaker 363600 ''tenant_sports'' ''user_new'' 2
      (Some ''eyJvZmZzZXQiOiAyfQ=='')
     = (fallback_feed (demo_env False) 363600 ''tenant_sports'' 2 False, closed_breaker)
   \<and> response_summary (fallback_feed (demo_env False) 363600 ''tenant_sports'' 2 False)
     = Inr ([''fallback_v1_363600'', ''fallback_v4_363600''], None, False, False, False)
   \<and> get_feed (demo_env True) demo_settings closed_breaker 363600 ''tenant_unknown'' ''user_new'' 2
      (Some ''eyJvZmZzZXQiOiAyfQ=='')
     = (fallback_feed (demo_env True) 363600 ''tenant_unknown'' 2 True, closed_breaker)
   \<and> response_summary (fallback_feed (demo_env True) 363600 ''tenant_unknown'' 2 True)
     = Inr ([], None, False, False, True)"
proof -
  note off = fallback_feed_unpaginated [of "demo_env False" 363600 "''tenant_sports''" 2 False
      demo_settings "''user_new''" closed_breaker "Some ''eyJvZmZzZXQiOiAyfQ==''"]
  note unk = fallback_feed_unpaginated [of "demo_env True" 363600 "''tenant_unknown''" 2 True
      demo_settings "''user_new''" closed_breaker "Some ''eyJvZmZzZXQiOiAyfQ==''"]
  have g1: "\<not> is_personalization_enabled (demo_env False) ''tenant_sports'' ''user_new''"
    by (simp add: demo_env_def)
  have g2: "\<not> rollout_excluded demo_settings ''user_new''"
    "is_personalization_enabled (demo_env True) ''tenant_unknown'' ''user_new''"
    "\<exists>s c. get_signals (demo_env True) ''user_new'' = Inr s
         \<and> get_candidates (demo_env True) ''tenant_unknown'' = Inr []
         \<and> get_config (demo_env True) ''tenant_unknown'' = Inr c"
    by (simp_all add: demo_env_def rollout_excluded_def demo_settings_def)
  from off g1 have a: "get_feed (demo_env False) demo_settings closed_breaker 363600
      ''tenant_sports'' ''user_new'' 2 (Some ''eyJvZmZzZXQiOiAyfQ=='')
     = (fallback_feed (demo_env False) 363600 ''tenant_sports'' 2 False, closed_breaker)"
    by blast
  from unk g2 have b: "get_feed (demo_env True) demo_settings closed_breaker 363600
      ''tenant_unknown'' ''user_new'' 2 (Some ''eyJvZmZzZXQiOiAyfQ=='')
     = (fallback_feed (demo_env True) 363600 ''tenant_unknown'' 2 True, closed_breaker)"
    by blast
  have c: "response_summary (fallback_feed (demo_env False) 363600 ''tenant_sports'' 2 False)
     = Inr ([''fallback_v1_363600'', ''fallback_v4_363600''], None, False, False, False)"
    "response_summary (fallback_feed (demo_env True) 363600 ''tenant_unknown'' 2 True)
     = Inr ([], None, False, False, True)"
    by (simp_all add: feed_eval rank_eval text_eval)
  from a b c show ?thesis by simp
qed

subsection \<open>HTTP edge\<close>

lemmas router_eval =
  router_get_feed_def feed_etag_def fixed_service_def mk_response_def plain_item_def mk_video_def
  stdlib_md5_hexdigest_def demo_settings_def bool_str_def Let_def

text \<open>
  C8 (as the code has it).  Let the feed service answer with \<open>resp\<close>.  With no items the
  handler serves \<open>resp\<close> without an ETag header.  With items, the ETag is \<^verbatim>\<open>W/"h"\<close> for \<open>h\<close> the
  first 16 characters of the MD5 hex digest of the item ids concatenated in order; a request
  whose \<^verbatim>\<open>If-None-Match\<close> equals it is answered by the bare 304 response, which has no body,
  and any other request is served \<open>resp\<close> with that ETag header.  The ETag is a function of the
  concatenated ids alone: responses with the same id sequence, and more generally with the same
  concatenation of ids, get identical ETags.
\<close>

theorem etag_and_conditional_response:
  "(\<forall>resp. service x_tenant_id uh (min limit (MAX_FEED_LIMIT settings)) cursor = Inr resp \<longrightarrow>
        (items resp = [] \<longrightarrow>
           (\<exists>hs. router_get_feed md5_hexdigest settings service limit cursor uh x_tenant_id
                    if_none_match = Inr (Served hs resp)
                \<and> ''ETag'' \<notin> fst ` set hs))
      \<and> (items resp \<noteq> [] \<longrightarrow>
           feed_etag md5_hexdigest (items resp)
             = Some (''W/\"'' @ take 16 (md5_hexdigest (concat (map item_id (items resp)))) @ ''\"'')
         \<and> (if_none_match = feed_etag md5_hexdigest (items resp) \<longrightarrow>
               router_get_feed md5_hexdigest settings service limit cursor uh x_tenant_id
                 if_none_match = Inr NotModified)
         \<and> (if_none_match \<noteq> feed_etag md5_hexdigest (items resp) \<longrightarrow>
               (\<exists>hs. router_get_feed md5_hexdigest settings service limit cursor uh x_tenant_id
                        if_none_match = Inr (Served hs resp)
                    \<and> map_of hs ''ETag'' = feed_etag md5_hexdigest (items resp)))))
   \<and> (\<forall>its1 its2. map item_id its1 = map item_id its2 \<longrightarrow>
         feed_etag md5_hexdigest its1 = feed_etag md5_hexdigest its2)
   \<and> (\<forall>its1 its2. its1 \<noteq> [] \<and> its2 \<noteq> []
         \<and> concat (map item_id its1) = concat (map item_id its2) \<longrightarrow>
         feed_etag md5_hexdigest its1 = feed_etag md5_hexdigest its2)"
proof -
  have none: "\<exists>hs. router_get_feed md5_hexdigest settings service limit cursor uh x_tenant_id
                    if_none_match = Inr (Served hs resp)
                \<and> ''ETag'' \<notin> fst ` set hs"
    if "service x_tenant_id uh (min limit (MAX_FEED_LIMIT settings)) cursor = Inr resp"
      "items resp = []" for resp
    using that
    by (cases if_none_match) (auto simp: router_get_feed_def feed_etag_def Let_def)
  have tag: "feed_etag md5_hexdigest its
             = Some (''W/\"'' @ take 16 (md5_hexdigest (concat (map item_id its))) @ ''\"'')"
    if "its \<noteq> []" for its
    using that by (simp add: feed_etag_def Let_def)
  have hit: "router_get_feed md5_hexdigest settings service limit cursor uh x_tenant_id
                 if_none_match = Inr NotModified"
    if "service x_tenant_id uh (min limit (MAX_FEED_LIMIT settings)) cursor = Inr resp"
      "items resp \<noteq> []" "if_none_match = feed_etag md5_hexdigest (items resp)" for resp
    using that tag [OF that(2)] by (simp add: router_get_feed_def Let_def)
  have miss: "\<exists>hs. router_get_feed md5_hexdigest settings service limit cursor uh x_tenant_id
                        if_none_match = Inr (Served hs resp)
                    \<and> map_of hs ''ETag'' = feed_etag md5_hexdigest (items resp)"
    if "service x_tenant_id uh (min limit (MAX_FEED_LIMIT settings)) cursor = Inr resp"
      "items resp \<noteq> []" "if_none_match \<noteq> feed_etag md5_hexdigest (items resp)" for resp
    using that tag [OF that(2)]
    by (cases if_none_match) (auto simp: router_get_feed_def Let_def)
  have same: "feed_etag md5_hexdigest its1 = feed_etag md5_hexdigest its2"
    if "map item_id its1 = map item_id its2" for its1 its2
  proof -
    from that have "its1 = [] \<longleftrightarrow> its2 = []" by (metis map_is_Nil_conv)
    with that show ?thesis by (simp add: feed_etag_def Let_def)
  qed
  have cat: "feed_etag md5_hexdigest its1 = feed_etag md5_hexdigest its2"
    if "its1 \<noteq> []" "its2 \<noteq> []" "concat (map item_id its1) = concat (map item_id its2)"
    for its1 its2
    using that by (simp add: feed_etag_def Let_def)
  from none tag hit miss same cat show ?thesis by blast
qed

text \<open>
  A response with the items \<open>v1\<close>, \<open>v4\<close>: the ETag is \<^verbatim>\<open>W/"de6f5f58a9be543d"\<close>; the request that
  presents it gets 304, a request without \<^verbatim>\<open>If-None-Match\<close> is served with the header; the
  empty response is served without one.
\<close>

theorem etag_and_conditional_response_witness:
  "feed_etag stdlib_md5_hexdigest (items (mk_response [''v1'', ''v4'']))
     = Some ''W/\"de6f5f58a9be543d\"''
   \<and> router_get_feed stdlib_md5_hexdigest demo_settings (fixed_service (mk_response [''v1'', ''v4'']))
        5 None ''user_new'' ''tenant_sports'' (Some ''W/\"de6f5f58a9be543d\"'')
     = Inr NotModified
   \<and> router_get_feed stdlib_md5_hexdigest demo_settings (fixed_service (mk_response [''v1'', ''v4'']))
        5 None ''user_new'' ''tenant_sports'' None
     = Inr (Served [(''ETag'', ''W/\"de6f5f58a9be543d\"''),
                    (''Cache-Control'', ''public, max-age=30, stale-while-revalidate=15''),
                    (''Vary'', ''Accept-Encoding''), (''X-Personalized'', ''false'')]
              (mk_response [''v1'', ''v4'']))
   \<and> router_get_feed stdlib_md5_hexdigest demo_settings (fixed_service (mk_response []))
        5 None ''user_new'' ''tenant_sports'' (Some ''W/\"de6f5f58a9be543d\"'')
     = Inr (Served [(''Cache-Control'', ''public, max-age=30, stale-while-revalidate=15''),
                    (''Vary'', ''Accept-Encoding''), (''X-Personalized'', ''false'')]
              (mk_response []))"
proof -
  let ?r = "mk_response [''v1'', ''v4'']"
  have s: "fixed_service ?r ''tenant_sports'' ''user_new'' (min 5 (MAX_FEED_LIMIT demo_settings)) None
             = Inr ?r"
    by (simp add: fixed_service_def)
  have ne: "items ?r \<noteq> []" by (simp add: mk_response_def)
  note th = etag_and_conditional_response [where service = "fixed_service ?r"
      and x_tenant_id = "''tenant_sports''" and uh = "''user_new''" and limit = 5
      and settings = demo_settings and cursor = None and md5_hexdigest = stdlib_md5_hexdigest
      and if_none_match = "Some ''W/\"de6f5f58a9be543d\"''"]
  from th s ne
  have a: "feed_etag stdlib_md5_hexdigest (items ?r)
             = Some (''W/\"'' @ take 16 (stdlib_md5_hexdigest (concat (map item_id (items ?r)))) @ ''\"'')"
    by blast
  then have a': "feed_etag stdlib_md5_hexdigest (items ?r) = Some ''W/\"de6f5f58a9be543d\"''"
    by (simp add: mk_response_def plain_item_def mk_video_def stdlib_md5_hexdigest_def)
  from th s ne a' [symmetric]
  have b: "router_get_feed stdlib_md5_hexdigest demo_settings (fixed_service ?r)
        5 None ''user_new'' ''tenant_sports'' (Some ''W/\"de6f5f58a9be543d\"'') = Inr NotModified"
    by blast
  have c: "router_get_feed stdlib_md5_hexdigest demo_settings (fixed_service ?r)
        5 None ''user_new'' ''tenant_sports'' None
     = Inr (Served [(''ETag'', ''W/\"de6f5f58a9be543d\"''),
                    (''Cache-Control'', ''public, max-age=30, stale-while-revalidate=15''),
                    (''Vary'', ''Accept-Encoding''), (''X-Personalized'', ''false'')] ?r)"
    by (simp add: router_eval)
  have d: "router_get_feed stdlib_md5_hexdigest demo_settings (fixed_service (mk_response []))
        5 None ''user_new'' ''tenant_sports'' (Some ''W/\"de6f5f58a9be543d\"'')
     = Inr (Served [(''Cache-Control'', ''public, max-age=30, stale-while-revalidate=15''),
                    (''Vary'', ''Accept-Encoding''), (''X-Personalized'', ''false'')]
              (mk_response []))"
    by (simp add: router_eval)
  from a' b c d show ?thesis by simp
qed

text \<open>
  C8 as stated does not hold: the responses with the item ids \<open>a\<close>, \<open>aa\<close> and \<open>aa\<close>, \<open>a\<close> differ
  in the order of their ids, yet both concatenate to \<open>aaa\<close> and get the ETag
  \<^verbatim>\<open>W/"47bce5c74f589f48"\<close>; the request that presents the ETag of the first is answered 304
  when the service returns the second.
\<close>

theorem etag_order_change_counterexample:
  "map item_id (items (mk_response [''a'', ''aa''])) \<noteq> map item_id (items (mk_response [''aa'', ''a'']))
   \<and> feed_etag stdlib_md5_hexdigest (items (mk_response [''a'', ''aa'']))
     = Some ''W/\"47bce5c74f589f48\"''
   \<and> feed_etag stdlib_md5_hexdigest (items (mk_response [''aa'', ''a'']))
     = Some ''W/\"47bce5c74f589f48\"''
   \<and> router_get_feed stdlib_md5_hexdigest demo_settings (fixed_service (mk_response [''aa'', ''a'']))
        5 None ''user_new'' ''tenant_sports''
        (feed_etag stdlib_md5_hexdigest (items (mk_response [''a'', ''aa''])))
     = Inr NotModified"
  by (simp add: router_eval)

end
